theory Spec2Isabelle
  imports Complex_Main
begin

section \<open>Errors and array arguments\<close>

text \<open>
  The Python exceptions that the modelled functions can raise. An \<open>assert\<close>
  statement raises \<open>AssertionError\<close>, with the message when the statement has one.
\<close>

datatype error = AssertionError "string option" | KeyError | ValueError

text \<open>
  An argument of the conversion helpers is a Python scalar or a numpy array. An array is
  represented by the list of its elements in row-major order, which is what
  \<open>arg.ravel()\<close> returns and what \<open>np.size\<close> counts.
\<close>

datatype 'a ndarray = Scalar 'a | Array "'a list"

fun np_size :: "'a ndarray \<Rightarrow> nat" where
  "np_size (Scalar x) = 1"
| "np_size (Array xs) = length xs"

fun ravel :: "'a ndarray \<Rightarrow> 'a list" where
  "ravel (Scalar x) = [x]"
| "ravel (Array xs) = xs"

text \<open>\<open>np.max\<close> of an array of lengths; numpy raises \<open>ValueError\<close> on an empty array.\<close>

fun np_max :: "nat list \<Rightarrow> error + nat" where
  "np_max [] = Inl ValueError"
| "np_max (n # ns) = Inr (fold max ns n)"

text \<open>
  One element of the list comprehension of \<open>_flattenfirst\<close>:
  \<open>np.full(npts, arg, dtype=dtype) if np.size(arg) == 1 else arg.ravel().astype(dtype)\<close>.
  The conversion to \<open>dtype\<close> is a function applied to every element.
\<close>

definition flatten_arg :: "nat \<Rightarrow> ('a \<Rightarrow> 'b) \<Rightarrow> 'a ndarray \<Rightarrow> 'b list" where
  "flatten_arg npts dtype arg =
     (if np_size arg = 1 then replicate npts (dtype (hd (ravel arg)))
      else map dtype (ravel arg))"

definition length_message :: string where
  "length_message = ''Inputs must all be the same length as each other or of length 1.''"

text \<open>\<open>_flattenfirst\<close> of \<open>convert.py\<close> (an Isabelle name cannot start with an underscore).\<close>

definition flattenfirst :: "'a ndarray list \<Rightarrow> ('a \<Rightarrow> 'b) \<Rightarrow> error + ('b list list \<times> nat)" where
  "flattenfirst args dtype =
     (let arglengths = map np_size args in
      if \<not> length (remdups (filter (\<lambda>n. n \<noteq> 1) arglengths)) \<le> 1
      then Inl (AssertionError (Some length_message))
      else case np_max arglengths of
             Inl e \<Rightarrow> Inl e
           | Inr npts \<Rightarrow> Inr (map (flatten_arg npts dtype) args, npts))"

section \<open>Legacy and separated option codes\<close>

text \<open>A list comprehension \<open>[d[k] for k in ks]\<close> over a dictionary: the first missing key
  raises \<open>KeyError\<close>.\<close>

fun lookup_all :: "('k \<rightharpoonup> 'v) \<Rightarrow> 'k list \<Rightarrow> error + 'v list" where
  "lookup_all d [] = Inr []"
| "lookup_all d (k # ks) =
     (case d k of
        None \<Rightarrow> Inl KeyError
      | Some v \<Rightarrow> (case lookup_all d ks of Inl e \<Rightarrow> Inl e | Inr vs \<Rightarrow> Inr (v # vs)))"

definition only2KSO4 :: "int \<rightharpoonup> int" where
  "only2KSO4 = map_of [(1, 1), (2, 2), (3, 1), (4, 2)]"

definition only2BORON :: "int \<rightharpoonup> int" where
  "only2BORON = map_of [(1, 1), (2, 1), (3, 2), (4, 2)]"

definition pair2one :: "int \<times> int \<rightharpoonup> int" where
  "pair2one = map_of [((1, 1), 1), ((2, 1), 2), ((1, 2), 3), ((2, 2), 4)]"

text \<open>
  \<open>options_old2new\<close> first wraps a scalar argument into an array of one element, so
  both kinds of argument are read through \<open>ravel\<close>; it returns the pair of arrays
  \<open>(KSO4CONSTANT, BORON)\<close>.
\<close>

definition options_old2new :: "int ndarray \<Rightarrow> error + (int list \<times> int list)" where
  "options_old2new KSO4CONSTANTS =
     (let ks = ravel KSO4CONSTANTS in
      case lookup_all only2KSO4 ks of
        Inl e \<Rightarrow> Inl e
      | Inr KSO4CONSTANT \<Rightarrow>
          (case lookup_all only2BORON ks of
             Inl e \<Rightarrow> Inl e
           | Inr BORON \<Rightarrow> Inr (KSO4CONSTANT, BORON)))"

text \<open>
  \<open>options_new2old\<close> flattens its two arguments with \<open>dtype\<close> \<open>int\<close>, which is the
  identity on the integer codes, and unpacks the list of the two vectors.
\<close>

definition options_new2old :: "int ndarray \<Rightarrow> int ndarray \<Rightarrow> error + int list" where
  "options_new2old KSO4CONSTANT BORON =
     (case flattenfirst [KSO4CONSTANT, BORON] id of
        Inl e \<Rightarrow> Inl e
      | Inr (flat, npts) \<Rightarrow> lookup_all pair2one (zip (flat ! 0) (flat ! 1)))"

section \<open>Floating-point values\<close>

text \<open>
  A numpy float is modelled as a real number, an infinity or not-a-number. The arithmetic
  follows IEEE 754 on the special values; on finite values it is the arithmetic of the
  reals, so rounding, overflow and underflow are not modelled, and zero has no sign (a
  division of a non-zero number by zero takes the sign of the numerator). Equality of
  two modelled values is equality of the values, so \<open>NaN = NaN\<close> holds here.
\<close>

datatype npfloat = Fin real | PInf | MInf | NaN

fun fl_add :: "npfloat \<Rightarrow> npfloat \<Rightarrow> npfloat" where
  "fl_add (Fin a) (Fin b) = Fin (a + b)"
| "fl_add NaN y = NaN"
| "fl_add x NaN = NaN"
| "fl_add PInf MInf = NaN"
| "fl_add MInf PInf = NaN"
| "fl_add PInf y = PInf"
| "fl_add x PInf = PInf"
| "fl_add MInf y = MInf"
| "fl_add x MInf = MInf"

fun fl_neg :: "npfloat \<Rightarrow> npfloat" where
  "fl_neg (Fin a) = Fin (- a)"
| "fl_neg PInf = MInf"
| "fl_neg MInf = PInf"
| "fl_neg NaN = NaN"

definition fl_sub :: "npfloat \<Rightarrow> npfloat \<Rightarrow> npfloat" where
  "fl_sub x y = fl_add x (fl_neg y)"

text \<open>The infinity with the sign of a non-zero real; zero times an infinity is not a number.\<close>

definition signed_inf :: "real \<Rightarrow> npfloat" where
  "signed_inf a = (if a = 0 then NaN else if 0 < a then PInf else MInf)"

fun fl_mul :: "npfloat \<Rightarrow> npfloat \<Rightarrow> npfloat" where
  "fl_mul (Fin a) (Fin b) = Fin (a * b)"
| "fl_mul NaN y = NaN"
| "fl_mul x NaN = NaN"
| "fl_mul (Fin a) PInf = signed_inf a"
| "fl_mul (Fin a) MInf = signed_inf (- a)"
| "fl_mul PInf (Fin b) = signed_inf b"
| "fl_mul MInf (Fin b) = signed_inf (- b)"
| "fl_mul PInf PInf = PInf"
| "fl_mul PInf MInf = MInf"
| "fl_mul MInf PInf = MInf"
| "fl_mul MInf MInf = PInf"

fun fl_div :: "npfloat \<Rightarrow> npfloat \<Rightarrow> npfloat" where
  "fl_div (Fin a) (Fin b) = (if b = 0 then signed_inf a else Fin (a / b))"
| "fl_div NaN y = NaN"
| "fl_div x NaN = NaN"
| "fl_div (Fin a) PInf = Fin 0"
| "fl_div (Fin a) MInf = Fin 0"
| "fl_div PInf (Fin b) = (if 0 \<le> b then PInf else MInf)"
| "fl_div MInf (Fin b) = (if 0 \<le> b then MInf else PInf)"
| "fl_div PInf PInf = NaN"
| "fl_div PInf MInf = NaN"
| "fl_div MInf PInf = NaN"
| "fl_div MInf MInf = NaN"

text \<open>\<open>np.log10\<close>: minus infinity at zero, not a number below zero.\<close>

fun fl_log10 :: "npfloat \<Rightarrow> npfloat" where
  "fl_log10 (Fin a) = (if 0 < a then Fin (log 10 a) else if a = 0 then MInf else NaN)"
| "fl_log10 PInf = PInf"
| "fl_log10 MInf = NaN"
| "fl_log10 NaN = NaN"

text \<open>
  Arrays of one batch are handled element by element: every numpy operation used by the
  modelled functions is elementwise, so the functions below give the value of one batch
  element. \<open>np.where(c, a, b)\<close> is then a conditional.
\<close>

definition np_where :: "bool \<Rightarrow> 'a \<Rightarrow> 'a \<Rightarrow> 'a" where
  "np_where c a b = (if c then a else b)"

section \<open>pH scale conversions\<close>

text \<open>
  The entries of the dictionaries \<open>totals\<close> and \<open>equilibria\<close> that
  \<open>convert.py\<close> reads; they hold numpy values (with Python floats a division by zero
  would raise instead of giving an infinity).
\<close>

record totals =
  TSO4 :: npfloat
  TF :: npfloat

record equilibria =
  KSO4 :: npfloat
  KF :: npfloat
  fH :: npfloat

definition free2tot :: "totals \<Rightarrow> equilibria \<Rightarrow> npfloat" where
  "free2tot tot eq = fl_add (Fin 1) (fl_div (TSO4 tot) (KSO4 eq))"

definition free2sws :: "totals \<Rightarrow> equilibria \<Rightarrow> npfloat" where
  "free2sws tot eq =
     fl_add (fl_add (Fin 1) (fl_div (TSO4 tot) (KSO4 eq))) (fl_div (TF tot) (KF eq))"

definition sws2free :: "totals \<Rightarrow> equilibria \<Rightarrow> npfloat" where
  "sws2free tot eq = fl_div (Fin 1) (free2sws tot eq)"

definition sws2tot :: "totals \<Rightarrow> equilibria \<Rightarrow> npfloat" where
  "sws2tot tot eq = fl_mul (sws2free tot eq) (free2tot tot eq)"

definition tot2free :: "totals \<Rightarrow> equilibria \<Rightarrow> npfloat" where
  "tot2free tot eq = fl_div (Fin 1) (free2tot tot eq)"

definition tot2sws :: "totals \<Rightarrow> equilibria \<Rightarrow> npfloat" where
  "tot2sws tot eq = fl_div (Fin 1) (sws2tot tot eq)"

text \<open>\<open>pH2allscales\<close> returns the tuple \<open>(pHtot, pHsws, pHfree, pHNBS)\<close>.\<close>

definition pH2allscales ::
  "npfloat \<Rightarrow> int \<Rightarrow> totals \<Rightarrow> equilibria \<Rightarrow> npfloat \<times> npfloat \<times> npfloat \<times> npfloat" where
  "pH2allscales pH pHScale tot eq =
     (let FREEtoTOT = free2tot tot eq;
          SWStoTOT = sws2tot tot eq;
          factor = NaN;
          factor = np_where (pHScale = 1) (Fin 0) factor;
          factor = np_where (pHScale = 2) (fl_log10 SWStoTOT) factor;
          factor = np_where (pHScale = 3) (fl_log10 FREEtoTOT) factor;
          factor = np_where (pHScale = 4) (fl_log10 (fl_div SWStoTOT (fH eq))) factor;
          pHtot = fl_sub pH factor;
          pHNBS = fl_add pHtot (fl_log10 (fl_div SWStoTOT (fH eq)));
          pHfree = fl_add pHtot (fl_log10 FREEtoTOT);
          pHsws = fl_add pHtot (fl_log10 SWStoTOT)
      in (pHtot, pHsws, pHfree, pHNBS))"

section \<open>Derivatives of the core variables\<close>

text \<open>
  The module \<open>solve.get\<close> with the closed-form relations, and the automatic
  differentiation \<open>egrad\<close>, are not part of the sources at hand. Every call
  \<open>egrad(lambda V: get.f(...))(V)\<close> of \<open>dcore_dparX__parY\<close> has the solved state, the
  totals and the equilibrium constants as the other arguments of \<open>get.f\<close>, so it is
  determined by the relation \<open>f\<close> and the variable \<open>V\<close>; the model takes the value of
  each such call for the batch element as a parameter \<open>egrad f V\<close>.
\<close>

datatype corevar = TA | TC | PH | FC | CARB | HCO3

datatype getfun =
    TAfromTCpH | fCO2fromTCpH | CarbfromTCpH | HCO3fromTCpH
  | TCfromTApH | fCO2fromTApH | CarbfromTApH | HCO3fromTApH
  | TCfrompHCarb | TAfrompHCarb | fCO2frompHCarb | HCO3frompHCarb
  | TCfrompHHCO3 | TAfrompHHCO3 | fCO2frompHHCO3 | CarbfrompHHCO3
  | TAfrompHfCO2 | TCfrompHfCO2 | CarbfrompHfCO2 | HCO3frompHfCO2
  | TAfromfCO2Carb | TCfromfCO2Carb | pHfromfCO2Carb | HCO3fromfCO2Carb
  | TAfromfCO2HCO3 | TCfromfCO2HCO3 | pHfromfCO2HCO3 | CarbfromfCO2HCO3
  | TAfromCarbHCO3 | TCfromCarbHCO3 | pHfromCarbHCO3 | fCO2fromCarbHCO3

type_synonym grads = "getfun \<Rightarrow> corevar \<Rightarrow> npfloat"

subsection \<open>Derivatives used by several cases, and derivatives of a single case\<close>

text \<open>Lines 111 to 115, under \<open>if np_any(isin(Ucase, [12, 32, 42, 52, 62, 72, 82]))\<close>.\<close>

definition dTA_dPH__TC :: "grads \<Rightarrow> npfloat" where
  "dTA_dPH__TC egrad = egrad TAfromTCpH PH"

definition dFC_dPH__TC :: "grads \<Rightarrow> npfloat" where
  "dFC_dPH__TC egrad = egrad fCO2fromTCpH PH"

definition dCARB_dPH__TC :: "grads \<Rightarrow> npfloat" where
  "dCARB_dPH__TC egrad = egrad CarbfromTCpH PH"

definition dHCO3_dPH__TC :: "grads \<Rightarrow> npfloat" where
  "dHCO3_dPH__TC egrad = egrad HCO3fromTCpH PH"

text \<open>Lines 116 to 120, under \<open>if np_any(isin(Ucase, [21, 31, 41, 51, 61, 71, 81]))\<close>.\<close>

definition dTC_dPH__TA :: "grads \<Rightarrow> npfloat" where
  "dTC_dPH__TA egrad = egrad TCfromTApH PH"

definition dFC_dPH__TA :: "grads \<Rightarrow> npfloat" where
  "dFC_dPH__TA egrad = egrad fCO2fromTApH PH"

definition dCARB_dPH__TA :: "grads \<Rightarrow> npfloat" where
  "dCARB_dPH__TA egrad = egrad CarbfromTApH PH"

definition dHCO3_dPH__TA :: "grads \<Rightarrow> npfloat" where
  "dHCO3_dPH__TA egrad = egrad HCO3fromTApH PH"

text \<open>Lines 121 to 125, under \<open>if np_any(isin(Ucase, [16, 26, 36]))\<close>.\<close>

definition dTC_dPH__CARB :: "grads \<Rightarrow> npfloat" where
  "dTC_dPH__CARB egrad = egrad TCfrompHCarb PH"

definition dTA_dPH__CARB :: "grads \<Rightarrow> npfloat" where
  "dTA_dPH__CARB egrad = egrad TAfrompHCarb PH"

definition dFC_dPH__CARB :: "grads \<Rightarrow> npfloat" where
  "dFC_dPH__CARB egrad = egrad fCO2frompHCarb PH"

definition dHCO3_dPH__CARB :: "grads \<Rightarrow> npfloat" where
  "dHCO3_dPH__CARB egrad = egrad HCO3frompHCarb PH"

text \<open>Lines 126 to 130, under \<open>if np_any(isin(Ucase, [17, 27, 37]))\<close>.\<close>

definition dTC_dPH__HCO3 :: "grads \<Rightarrow> npfloat" where
  "dTC_dPH__HCO3 egrad = egrad TCfrompHHCO3 PH"

definition dTA_dPH__HCO3 :: "grads \<Rightarrow> npfloat" where
  "dTA_dPH__HCO3 egrad = egrad TAfrompHHCO3 PH"

definition dFC_dPH__HCO3 :: "grads \<Rightarrow> npfloat" where
  "dFC_dPH__HCO3 egrad = egrad fCO2frompHHCO3 PH"

definition dCARB_dPH__HCO3 :: "grads \<Rightarrow> npfloat" where
  "dCARB_dPH__HCO3 egrad = egrad CarbfrompHHCO3 PH"

text \<open>Lines 131 to 135, under \<open>if np_any(isin(Ucase, [14, 15, 18, 24, 25, 28, 34, 35, 38]))\<close>.\<close>

definition dTA_dPH__FC :: "grads \<Rightarrow> npfloat" where
  "dTA_dPH__FC egrad = egrad TAfrompHfCO2 PH"

definition dTC_dPH__FC :: "grads \<Rightarrow> npfloat" where
  "dTC_dPH__FC egrad = egrad TCfrompHfCO2 PH"

definition dCARB_dPH__FC :: "grads \<Rightarrow> npfloat" where
  "dCARB_dPH__FC egrad = egrad CarbfrompHfCO2 PH"

definition dHCO3_dPH__FC :: "grads \<Rightarrow> npfloat" where
  "dHCO3_dPH__FC egrad = egrad HCO3frompHfCO2 PH"

text \<open>Lines 137 to 141, under \<open>if np_any((parXtype == 1) & (parYtype == 2))\<close>.\<close>

definition dPH_dTA__TC :: "grads \<Rightarrow> npfloat" where
  "dPH_dTA__TC egrad = fl_div (Fin 1) (dTA_dPH__TC egrad)"

definition dFC_dTA__TC :: "grads \<Rightarrow> npfloat" where
  "dFC_dTA__TC egrad = fl_div (dFC_dPH__TC egrad) (dTA_dPH__TC egrad)"

definition dCARB_dTA__TC :: "grads \<Rightarrow> npfloat" where
  "dCARB_dTA__TC egrad = fl_div (dCARB_dPH__TC egrad) (dTA_dPH__TC egrad)"

definition dHCO3_dTA__TC :: "grads \<Rightarrow> npfloat" where
  "dHCO3_dTA__TC egrad = fl_div (dHCO3_dPH__TC egrad) (dTA_dPH__TC egrad)"

text \<open>Lines 142 to 146, under \<open>if np_any((parXtype == 1) & (parYtype == 3))\<close>.\<close>

definition dTC_dTA__PH :: "grads \<Rightarrow> npfloat" where
  "dTC_dTA__PH egrad = egrad TCfromTApH TA"

definition dFC_dTA__PH :: "grads \<Rightarrow> npfloat" where
  "dFC_dTA__PH egrad = egrad fCO2fromTApH TA"

definition dCARB_dTA__PH :: "grads \<Rightarrow> npfloat" where
  "dCARB_dTA__PH egrad = egrad CarbfromTApH TA"

definition dHCO3_dTA__PH :: "grads \<Rightarrow> npfloat" where
  "dHCO3_dTA__PH egrad = egrad HCO3fromTApH TA"

text \<open>Lines 147 to 151, under \<open>if np_any((parXtype == 1) & isin(parYtype, [4, 5, 8]))\<close>.\<close>

definition dTC_dTA__FC :: "grads \<Rightarrow> npfloat" where
  "dTC_dTA__FC egrad = fl_div (dTC_dPH__FC egrad) (dTA_dPH__FC egrad)"

definition dPH_dTA__FC :: "grads \<Rightarrow> npfloat" where
  "dPH_dTA__FC egrad = fl_div (Fin 1) (dTA_dPH__FC egrad)"

definition dCARB_dTA__FC :: "grads \<Rightarrow> npfloat" where
  "dCARB_dTA__FC egrad = fl_div (dCARB_dPH__FC egrad) (dTA_dPH__FC egrad)"

definition dHCO3_dTA__FC :: "grads \<Rightarrow> npfloat" where
  "dHCO3_dTA__FC egrad = fl_div (dHCO3_dPH__FC egrad) (dTA_dPH__FC egrad)"

text \<open>Lines 152 to 156, under \<open>if np_any((parXtype == 1) & (parYtype == 6))\<close>.\<close>

definition dTC_dTA__CARB :: "grads \<Rightarrow> npfloat" where
  "dTC_dTA__CARB egrad = fl_div (dTC_dPH__CARB egrad) (dTA_dPH__CARB egrad)"

definition dPH_dTA__CARB :: "grads \<Rightarrow> npfloat" where
  "dPH_dTA__CARB egrad = fl_div (Fin 1) (dTA_dPH__CARB egrad)"

definition dFC_dTA__CARB :: "grads \<Rightarrow> npfloat" where
  "dFC_dTA__CARB egrad = fl_div (dFC_dPH__CARB egrad) (dTA_dPH__CARB egrad)"

definition dHCO3_dTA__CARB :: "grads \<Rightarrow> npfloat" where
  "dHCO3_dTA__CARB egrad = fl_div (dHCO3_dPH__CARB egrad) (dTA_dPH__CARB egrad)"

text \<open>Lines 157 to 161, under \<open>if np_any((parXtype == 1) & (parYtype == 7))\<close>.\<close>

definition dTC_dTA__HCO3 :: "grads \<Rightarrow> npfloat" where
  "dTC_dTA__HCO3 egrad = fl_div (dTC_dPH__HCO3 egrad) (dTA_dPH__HCO3 egrad)"

definition dPH_dTA__HCO3 :: "grads \<Rightarrow> npfloat" where
  "dPH_dTA__HCO3 egrad = fl_div (Fin 1) (dTA_dPH__HCO3 egrad)"

definition dFC_dTA__HCO3 :: "grads \<Rightarrow> npfloat" where
  "dFC_dTA__HCO3 egrad = fl_div (dFC_dPH__HCO3 egrad) (dTA_dPH__HCO3 egrad)"

definition dCARB_dTA__HCO3 :: "grads \<Rightarrow> npfloat" where
  "dCARB_dTA__HCO3 egrad = fl_div (dCARB_dPH__HCO3 egrad) (dTA_dPH__HCO3 egrad)"

text \<open>Lines 162 to 166, under \<open>if np_any((parXtype == 2) & (parYtype == 1))\<close>.\<close>

definition dPH_dTC__TA :: "grads \<Rightarrow> npfloat" where
  "dPH_dTC__TA egrad = fl_div (Fin 1) (dTC_dPH__TA egrad)"

definition dFC_dTC__TA :: "grads \<Rightarrow> npfloat" where
  "dFC_dTC__TA egrad = fl_div (dFC_dPH__TA egrad) (dTC_dPH__TA egrad)"

definition dCARB_dTC__TA :: "grads \<Rightarrow> npfloat" where
  "dCARB_dTC__TA egrad = fl_div (dCARB_dPH__TA egrad) (dTC_dPH__TA egrad)"

definition dHCO3_dTC__TA :: "grads \<Rightarrow> npfloat" where
  "dHCO3_dTC__TA egrad = fl_div (dHCO3_dPH__TA egrad) (dTC_dPH__TA egrad)"

text \<open>Lines 167 to 171, under \<open>if np_any((parXtype == 2) & (parYtype == 3))\<close>.\<close>

definition dTA_dTC__PH :: "grads \<Rightarrow> npfloat" where
  "dTA_dTC__PH egrad = egrad TAfromTCpH TC"

definition dFC_dTC__PH :: "grads \<Rightarrow> npfloat" where
  "dFC_dTC__PH egrad = egrad fCO2fromTCpH TC"

definition dCARB_dTC__PH :: "grads \<Rightarrow> npfloat" where
  "dCARB_dTC__PH egrad = egrad CarbfromTCpH TC"

definition dHCO3_dTC__PH :: "grads \<Rightarrow> npfloat" where
  "dHCO3_dTC__PH egrad = egrad HCO3fromTCpH TC"

text \<open>Lines 172 to 176, under \<open>if np_any((parXtype == 2) & isin(parYtype, [4, 5, 8]))\<close>.\<close>

definition dTA_dTC__FC :: "grads \<Rightarrow> npfloat" where
  "dTA_dTC__FC egrad = fl_div (dTA_dPH__FC egrad) (dTC_dPH__FC egrad)"

definition dPH_dTC__FC :: "grads \<Rightarrow> npfloat" where
  "dPH_dTC__FC egrad = fl_div (Fin 1) (dTC_dPH__FC egrad)"

definition dCARB_dTC__FC :: "grads \<Rightarrow> npfloat" where
  "dCARB_dTC__FC egrad = fl_div (dCARB_dPH__FC egrad) (dTC_dPH__FC egrad)"

definition dHCO3_dTC__FC :: "grads \<Rightarrow> npfloat" where
  "dHCO3_dTC__FC egrad = fl_div (dHCO3_dPH__FC egrad) (dTC_dPH__FC egrad)"

text \<open>Lines 177 to 181, under \<open>if np_any((parXtype == 2) & (parYtype == 6))\<close>.\<close>

definition dTA_dTC__CARB :: "grads \<Rightarrow> npfloat" where
  "dTA_dTC__CARB egrad = fl_div (dTA_dPH__CARB egrad) (dTC_dPH__CARB egrad)"

definition dPH_dTC__CARB :: "grads \<Rightarrow> npfloat" where
  "dPH_dTC__CARB egrad = fl_div (Fin 1) (dTC_dPH__CARB egrad)"

definition dFC_dTC__CARB :: "grads \<Rightarrow> npfloat" where
  "dFC_dTC__CARB egrad = fl_div (dFC_dPH__CARB egrad) (dTC_dPH__CARB egrad)"

definition dHCO3_dTC__CARB :: "grads \<Rightarrow> npfloat" where
  "dHCO3_dTC__CARB egrad = fl_div (dHCO3_dPH__CARB egrad) (dTC_dPH__CARB egrad)"

text \<open>Lines 182 to 186, under \<open>if np_any((parXtype == 2) & (parYtype == 7))\<close>.\<close>

definition dTA_dTC__HCO3 :: "grads \<Rightarrow> npfloat" where
  "dTA_dTC__HCO3 egrad = fl_div (dTA_dPH__HCO3 egrad) (dTC_dPH__HCO3 egrad)"

definition dPH_dTC__HCO3 :: "grads \<Rightarrow> npfloat" where
  "dPH_dTC__HCO3 egrad = fl_div (Fin 1) (dTC_dPH__HCO3 egrad)"

definition dFC_dTC__HCO3 :: "grads \<Rightarrow> npfloat" where
  "dFC_dTC__HCO3 egrad = fl_div (dFC_dPH__HCO3 egrad) (dTC_dPH__HCO3 egrad)"

definition dCARB_dTC__HCO3 :: "grads \<Rightarrow> npfloat" where
  "dCARB_dTC__HCO3 egrad = fl_div (dCARB_dPH__HCO3 egrad) (dTC_dPH__HCO3 egrad)"

text \<open>Lines 187 to 191, under \<open>if np_any(isin(parXtype, [4, 5, 8]) & (parYtype == 1))\<close>.\<close>

definition dTC_dFC__TA :: "grads \<Rightarrow> npfloat" where
  "dTC_dFC__TA egrad = fl_div (dTC_dPH__TA egrad) (dFC_dPH__TA egrad)"

definition dPH_dFC__TA :: "grads \<Rightarrow> npfloat" where
  "dPH_dFC__TA egrad = fl_div (Fin 1) (dFC_dPH__TA egrad)"

definition dCARB_dFC__TA :: "grads \<Rightarrow> npfloat" where
  "dCARB_dFC__TA egrad = fl_div (dCARB_dPH__TA egrad) (dFC_dPH__TA egrad)"

definition dHCO3_dFC__TA :: "grads \<Rightarrow> npfloat" where
  "dHCO3_dFC__TA egrad = fl_div (dHCO3_dPH__TA egrad) (dFC_dPH__TA egrad)"

text \<open>Lines 192 to 196, under \<open>if np_any(isin(parXtype, [4, 5, 8]) & (parYtype == 2))\<close>.\<close>

definition dTA_dFC__TC :: "grads \<Rightarrow> npfloat" where
  "dTA_dFC__TC egrad = fl_div (dTA_dPH__TC egrad) (dFC_dPH__TC egrad)"

definition dPH_dFC__TC :: "grads \<Rightarrow> npfloat" where
  "dPH_dFC__TC egrad = fl_div (Fin 1) (dFC_dPH__TC egrad)"

definition dCARB_dFC__TC :: "grads \<Rightarrow> npfloat" where
  "dCARB_dFC__TC egrad = fl_div (dCARB_dPH__TC egrad) (dFC_dPH__TC egrad)"

definition dHCO3_dFC__TC :: "grads \<Rightarrow> npfloat" where
  "dHCO3_dFC__TC egrad = fl_div (dHCO3_dPH__TC egrad) (dFC_dPH__TC egrad)"

text \<open>Lines 197 to 201, under \<open>if np_any(isin(parXtype, [4, 5, 8]) & (parYtype == 3))\<close>.\<close>

definition dTA_dFC__PH :: "grads \<Rightarrow> npfloat" where
  "dTA_dFC__PH egrad = egrad TAfrompHfCO2 FC"

definition dTC_dFC__PH :: "grads \<Rightarrow> npfloat" where
  "dTC_dFC__PH egrad = egrad TCfrompHfCO2 FC"

definition dCARB_dFC__PH :: "grads \<Rightarrow> npfloat" where
  "dCARB_dFC__PH egrad = egrad CarbfrompHfCO2 FC"

definition dHCO3_dFC__PH :: "grads \<Rightarrow> npfloat" where
  "dHCO3_dFC__PH egrad = egrad HCO3frompHfCO2 FC"

text \<open>Lines 202 to 206, under \<open>if np_any(isin(parXtype, [4, 5, 8]) & (parYtype == 6))\<close>.\<close>

definition dTA_dFC__CARB :: "grads \<Rightarrow> npfloat" where
  "dTA_dFC__CARB egrad = egrad TAfromfCO2Carb FC"

definition dTC_dFC__CARB :: "grads \<Rightarrow> npfloat" where
  "dTC_dFC__CARB egrad = egrad TCfromfCO2Carb FC"

definition dPH_dFC__CARB :: "grads \<Rightarrow> npfloat" where
  "dPH_dFC__CARB egrad = egrad pHfromfCO2Carb FC"

definition dHCO3_dFC__CARB :: "grads \<Rightarrow> npfloat" where
  "dHCO3_dFC__CARB egrad = egrad HCO3fromfCO2Carb FC"

text \<open>Lines 207 to 211, under \<open>if np_any(isin(parXtype, [4, 5, 8]) & (parYtype == 7))\<close>.\<close>

definition dTA_dFC__HCO3 :: "grads \<Rightarrow> npfloat" where
  "dTA_dFC__HCO3 egrad = egrad TAfromfCO2HCO3 FC"

definition dTC_dFC__HCO3 :: "grads \<Rightarrow> npfloat" where
  "dTC_dFC__HCO3 egrad = egrad TCfromfCO2HCO3 FC"

definition dPH_dFC__HCO3 :: "grads \<Rightarrow> npfloat" where
  "dPH_dFC__HCO3 egrad = egrad pHfromfCO2HCO3 FC"

definition dCARB_dFC__HCO3 :: "grads \<Rightarrow> npfloat" where
  "dCARB_dFC__HCO3 egrad = egrad CarbfromfCO2HCO3 FC"

text \<open>Lines 212 to 216, under \<open>if np_any((parXtype == 6) & (parYtype == 1))\<close>.\<close>

definition dTC_dCARB__TA :: "grads \<Rightarrow> npfloat" where
  "dTC_dCARB__TA egrad = fl_div (dTC_dPH__TA egrad) (dCARB_dPH__TA egrad)"

definition dPH_dCARB__TA :: "grads \<Rightarrow> npfloat" where
  "dPH_dCARB__TA egrad = fl_div (Fin 1) (dCARB_dPH__TA egrad)"

definition dFC_dCARB__TA :: "grads \<Rightarrow> npfloat" where
  "dFC_dCARB__TA egrad = fl_div (dFC_dPH__TA egrad) (dCARB_dPH__TA egrad)"

definition dHCO3_dCARB__TA :: "grads \<Rightarrow> npfloat" where
  "dHCO3_dCARB__TA egrad = fl_div (dHCO3_dPH__TA egrad) (dCARB_dPH__TA egrad)"

text \<open>Lines 217 to 221, under \<open>if np_any((parXtype == 6) & (parYtype == 2))\<close>.\<close>

definition dTA_dCARB__TC :: "grads \<Rightarrow> npfloat" where
  "dTA_dCARB__TC egrad = fl_div (dTA_dPH__TC egrad) (dCARB_dPH__TC egrad)"

definition dPH_dCARB__TC :: "grads \<Rightarrow> npfloat" where
  "dPH_dCARB__TC egrad = fl_div (Fin 1) (dCARB_dPH__TC egrad)"

definition dFC_dCARB__TC :: "grads \<Rightarrow> npfloat" where
  "dFC_dCARB__TC egrad = fl_div (dFC_dPH__TC egrad) (dCARB_dPH__TC egrad)"

definition dHCO3_dCARB__TC :: "grads \<Rightarrow> npfloat" where
  "dHCO3_dCARB__TC egrad = fl_div (dHCO3_dPH__TC egrad) (dCARB_dPH__TC egrad)"

text \<open>Lines 222 to 226, under \<open>if np_any((parXtype == 6) & (parYtype == 3))\<close>.\<close>

definition dTA_dCARB__PH :: "grads \<Rightarrow> npfloat" where
  "dTA_dCARB__PH egrad = egrad TAfrompHCarb CARB"

definition dTC_dCARB__PH :: "grads \<Rightarrow> npfloat" where
  "dTC_dCARB__PH egrad = egrad TCfrompHCarb CARB"

definition dFC_dCARB__PH :: "grads \<Rightarrow> npfloat" where
  "dFC_dCARB__PH egrad = egrad fCO2frompHCarb CARB"

definition dHCO3_dCARB__PH :: "grads \<Rightarrow> npfloat" where
  "dHCO3_dCARB__PH egrad = egrad HCO3frompHCarb CARB"

text \<open>Lines 227 to 235, under \<open>if np_any((parXtype == 6) & isin(parYtype, [4, 5, 8]))\<close>.\<close>

definition dTA_dCARB__FC :: "grads \<Rightarrow> npfloat" where
  "dTA_dCARB__FC egrad = egrad TAfromfCO2Carb CARB"

definition dTC_dCARB__FC :: "grads \<Rightarrow> npfloat" where
  "dTC_dCARB__FC egrad = egrad TCfromfCO2Carb CARB"

definition dPH_dCARB__FC :: "grads \<Rightarrow> npfloat" where
  "dPH_dCARB__FC egrad = egrad pHfromfCO2Carb CARB"

definition dHCO3_dCARB__FC :: "grads \<Rightarrow> npfloat" where
  "dHCO3_dCARB__FC egrad = egrad HCO3fromfCO2Carb CARB"

text \<open>Lines 236 to 246, under \<open>if np_any((parXtype == 6) & (parYtype == 7))\<close>.\<close>

definition dTA_dCARB__HCO3 :: "grads \<Rightarrow> npfloat" where
  "dTA_dCARB__HCO3 egrad = egrad TAfromCarbHCO3 CARB"

definition dTC_dCARB__HCO3 :: "grads \<Rightarrow> npfloat" where
  "dTC_dCARB__HCO3 egrad = egrad TCfromCarbHCO3 CARB"

definition dPH_dCARB__HCO3 :: "grads \<Rightarrow> npfloat" where
  "dPH_dCARB__HCO3 egrad = egrad pHfromCarbHCO3 CARB"

definition dFC_dCARB__HCO3 :: "grads \<Rightarrow> npfloat" where
  "dFC_dCARB__HCO3 egrad = egrad fCO2fromCarbHCO3 CARB"

text \<open>Lines 247 to 251, under \<open>if np_any((parXtype == 7) & (parYtype == 1))\<close>.\<close>

definition dTC_dHCO3__TA :: "grads \<Rightarrow> npfloat" where
  "dTC_dHCO3__TA egrad = fl_div (dTC_dPH__TA egrad) (dHCO3_dPH__TA egrad)"

definition dPH_dHCO3__TA :: "grads \<Rightarrow> npfloat" where
  "dPH_dHCO3__TA egrad = fl_div (Fin 1) (dHCO3_dPH__TA egrad)"

definition dFC_dHCO3__TA :: "grads \<Rightarrow> npfloat" where
  "dFC_dHCO3__TA egrad = fl_div (dFC_dPH__TA egrad) (dHCO3_dPH__TA egrad)"

definition dCARB_dHCO3__TA :: "grads \<Rightarrow> npfloat" where
  "dCARB_dHCO3__TA egrad = fl_div (dCARB_dPH__TA egrad) (dHCO3_dPH__TA egrad)"

text \<open>Lines 252 to 256, under \<open>if np_any((parXtype == 7) & (parYtype == 2))\<close>.\<close>

definition dTA_dHCO3__TC :: "grads \<Rightarrow> npfloat" where
  "dTA_dHCO3__TC egrad = fl_div (dTA_dPH__TC egrad) (dHCO3_dPH__TC egrad)"

definition dPH_dHCO3__TC :: "grads \<Rightarrow> npfloat" where
  "dPH_dHCO3__TC egrad = fl_div (Fin 1) (dHCO3_dPH__TC egrad)"

definition dFC_dHCO3__TC :: "grads \<Rightarrow> npfloat" where
  "dFC_dHCO3__TC egrad = fl_div (dFC_dPH__TC egrad) (dHCO3_dPH__TC egrad)"

definition dCARB_dHCO3__TC :: "grads \<Rightarrow> npfloat" where
  "dCARB_dHCO3__TC egrad = fl_div (dCARB_dPH__TC egrad) (dHCO3_dPH__TC egrad)"

text \<open>Lines 257 to 261, under \<open>if np_any((parXtype == 7) & (parYtype == 3))\<close>.\<close>

definition dTC_dHCO3__PH :: "grads \<Rightarrow> npfloat" where
  "dTC_dHCO3__PH egrad = egrad TCfrompHHCO3 HCO3"

definition dTA_dHCO3__PH :: "grads \<Rightarrow> npfloat" where
  "dTA_dHCO3__PH egrad = egrad TAfrompHHCO3 HCO3"

definition dFC_dHCO3__PH :: "grads \<Rightarrow> npfloat" where
  "dFC_dHCO3__PH egrad = egrad fCO2frompHHCO3 HCO3"

definition dCARB_dHCO3__PH :: "grads \<Rightarrow> npfloat" where
  "dCARB_dHCO3__PH egrad = egrad CarbfrompHHCO3 HCO3"

text \<open>Lines 262 to 270, under \<open>if np_any((parXtype == 7) & isin(parYtype, [4, 5, 8]))\<close>.\<close>

definition dTA_dHCO3__FC :: "grads \<Rightarrow> npfloat" where
  "dTA_dHCO3__FC egrad = egrad TAfromfCO2HCO3 HCO3"

definition dTC_dHCO3__FC :: "grads \<Rightarrow> npfloat" where
  "dTC_dHCO3__FC egrad = egrad TCfromfCO2HCO3 HCO3"

definition dPH_dHCO3__FC :: "grads \<Rightarrow> npfloat" where
  "dPH_dHCO3__FC egrad = egrad pHfromfCO2HCO3 HCO3"

definition dCARB_dHCO3__FC :: "grads \<Rightarrow> npfloat" where
  "dCARB_dHCO3__FC egrad = egrad CarbfromfCO2HCO3 HCO3"

text \<open>Lines 271 to 281, under \<open>if np_any((parXtype == 7) & (parYtype == 6))\<close>.\<close>

definition dTA_dHCO3__CARB :: "grads \<Rightarrow> npfloat" where
  "dTA_dHCO3__CARB egrad = egrad TAfromCarbHCO3 HCO3"

definition dTC_dHCO3__CARB :: "grads \<Rightarrow> npfloat" where
  "dTC_dHCO3__CARB egrad = egrad TCfromCarbHCO3 HCO3"

definition dPH_dHCO3__CARB :: "grads \<Rightarrow> npfloat" where
  "dPH_dHCO3__CARB egrad = egrad pHfromCarbHCO3 HCO3"

definition dFC_dHCO3__CARB :: "grads \<Rightarrow> npfloat" where
  "dFC_dHCO3__CARB egrad = egrad fCO2fromCarbHCO3 HCO3"

subsection \<open>Assignment of the derivatives\<close>

text \<open>
  The arrays \<open>dTA_dX__Y\<close>, ... of the function are the fields of a record, which is also
  the returned dictionary: the key \<open>"TA"\<close> holds \<open>dTA_dX__Y\<close>, and so on. The fields
  \<open>dPC_dX__Y\<close> and \<open>dCO2_dX__Y\<close> are first assigned after the six blocks below; until
  then they hold a placeholder.
\<close>

record derivs =
  dTA_dX__Y :: npfloat
  dTC_dX__Y :: npfloat
  dPH_dX__Y :: npfloat
  dPC_dX__Y :: npfloat
  dFC_dX__Y :: npfloat
  dCARB_dX__Y :: npfloat
  dHCO3_dX__Y :: npfloat
  dCO2_dX__Y :: npfloat

definition preallocate :: derivs where
  "preallocate =
     \<lparr>dTA_dX__Y = NaN, dTC_dX__Y = NaN, dPH_dX__Y = NaN, dPC_dX__Y = NaN,
      dFC_dX__Y = NaN, dCARB_dX__Y = NaN, dHCO3_dX__Y = NaN, dCO2_dX__Y = NaN\<rparr>"

text \<open>
  A statement \<open>d = where(c, v, d)\<close> updates the field \<open>d\<close> with \<open>np_where c v\<close>; the
  statements of a block are applied in their order. A block under \<open>if np_any(c)\<close> that is
  skipped for the whole batch leaves every element as its \<open>where\<close> statements would,
  since \<open>c\<close> is then false at every element.
\<close>

text \<open>Lines 290 to 327.\<close>

definition assign_TA :: "int \<Rightarrow> int \<Rightarrow> grads \<Rightarrow> derivs \<Rightarrow> derivs" where
  "assign_TA parXtype parYtype egrad =
     (let X = (parXtype = 1) in
      fold (\<lambda>u. u)
       [dTA_dX__Y_update (np_where X (Fin 1)),
        (let XY = (X \<and> parYtype = 2) in
          fold (\<lambda>u. u)
            [dTC_dX__Y_update (np_where XY (Fin 0)),
             dPH_dX__Y_update (np_where XY (dPH_dTA__TC egrad)),
             dFC_dX__Y_update (np_where XY (dFC_dTA__TC egrad)),
             dCARB_dX__Y_update (np_where XY (dCARB_dTA__TC egrad)),
             dHCO3_dX__Y_update (np_where XY (dHCO3_dTA__TC egrad))]),
        (let XY = (X \<and> parYtype = 3) in
          fold (\<lambda>u. u)
            [dTC_dX__Y_update (np_where XY (dTC_dTA__PH egrad)),
             dPH_dX__Y_update (np_where XY (Fin 0)),
             dFC_dX__Y_update (np_where XY (dFC_dTA__PH egrad)),
             dCARB_dX__Y_update (np_where XY (dCARB_dTA__PH egrad)),
             dHCO3_dX__Y_update (np_where XY (dHCO3_dTA__PH egrad))]),
        (let XY = (X \<and> parYtype \<in> {4, 5, 8}) in
          fold (\<lambda>u. u)
            [dTC_dX__Y_update (np_where XY (dTC_dTA__FC egrad)),
             dPH_dX__Y_update (np_where XY (dPH_dTA__FC egrad)),
             dFC_dX__Y_update (np_where XY (Fin 0)),
             dCARB_dX__Y_update (np_where XY (dCARB_dTA__FC egrad)),
             dHCO3_dX__Y_update (np_where XY (dHCO3_dTA__FC egrad))]),
        (let XY = (X \<and> parYtype = 6) in
          fold (\<lambda>u. u)
            [dTC_dX__Y_update (np_where XY (dTC_dTA__CARB egrad)),
             dPH_dX__Y_update (np_where XY (dPH_dTA__CARB egrad)),
             dFC_dX__Y_update (np_where XY (dFC_dTA__CARB egrad)),
             dCARB_dX__Y_update (np_where XY (Fin 0)),
             dHCO3_dX__Y_update (np_where XY (dHCO3_dTA__CARB egrad))]),
        (let XY = (X \<and> parYtype = 7) in
          fold (\<lambda>u. u)
            [dTC_dX__Y_update (np_where XY (dTC_dTA__HCO3 egrad)),
             dPH_dX__Y_update (np_where XY (dPH_dTA__HCO3 egrad)),
             dFC_dX__Y_update (np_where XY (dFC_dTA__HCO3 egrad)),
             dCARB_dX__Y_update (np_where XY (dCARB_dTA__HCO3 egrad)),
             dHCO3_dX__Y_update (np_where XY (Fin 0))])])"

text \<open>Lines 328 to 365.\<close>

definition assign_TC :: "int \<Rightarrow> int \<Rightarrow> grads \<Rightarrow> derivs \<Rightarrow> derivs" where
  "assign_TC parXtype parYtype egrad =
     (let X = (parXtype = 2) in
      fold (\<lambda>u. u)
       [dTC_dX__Y_update (np_where X (Fin 1)),
        (let XY = (X \<and> parYtype = 1) in
          fold (\<lambda>u. u)
            [dTA_dX__Y_update (np_where XY (Fin 0)),
             dPH_dX__Y_update (np_where XY (dPH_dTC__TA egrad)),
             dFC_dX__Y_update (np_where XY (dFC_dTC__TA egrad)),
             dCARB_dX__Y_update (np_where XY (dCARB_dTC__TA egrad)),
             dHCO3_dX__Y_update (np_where XY (dHCO3_dTC__TA egrad))]),
        (let XY = (X \<and> parYtype = 3) in
          fold (\<lambda>u. u)
            [dTA_dX__Y_update (np_where XY (dTA_dTC__PH egrad)),
             dPH_dX__Y_update (np_where XY (Fin 0)),
             dFC_dX__Y_update (np_where XY (dFC_dTC__PH egrad)),
             dCARB_dX__Y_update (np_where XY (dCARB_dTC__PH egrad)),
             dHCO3_dX__Y_update (np_where XY (dHCO3_dTC__PH egrad))]),
        (let XY = (X \<and> parYtype \<in> {4, 5, 8}) in
          fold (\<lambda>u. u)
            [dTA_dX__Y_update (np_where XY (dTA_dTC__FC egrad)),
             dPH_dX__Y_update (np_where XY (dPH_dTC__FC egrad)),
             dFC_dX__Y_update (np_where XY (Fin 0)),
             dCARB_dX__Y_update (np_where XY (dCARB_dTC__FC egrad)),
             dHCO3_dX__Y_update (np_where XY (dHCO3_dTC__FC egrad))]),
        (let XY = (X \<and> parYtype = 6) in
          fold (\<lambda>u. u)
            [dTA_dX__Y_update (np_where XY (dTA_dTC__CARB egrad)),
             dPH_dX__Y_update (np_where XY (dPH_dTC__CARB egrad)),
             dFC_dX__Y_update (np_where XY (dFC_dTC__CARB egrad)),
             dCARB_dX__Y_update (np_where XY (Fin 0)),
             dHCO3_dX__Y_update (np_where XY (dHCO3_dTC__CARB egrad))]),
        (let XY = (X \<and> parYtype = 7) in
          fold (\<lambda>u. u)
            [dTA_dX__Y_update (np_where XY (dTA_dTC__HCO3 egrad)),
             dPH_dX__Y_update (np_where XY (dPH_dTC__HCO3 egrad)),
             dFC_dX__Y_update (np_where XY (dFC_dTC__HCO3 egrad)),
             dCARB_dX__Y_update (np_where XY (dCARB_dTC__HCO3 egrad)),
             dHCO3_dX__Y_update (np_where XY (Fin 0))])])"

text \<open>Lines 366 to 403.\<close>

definition assign_PH :: "int \<Rightarrow> int \<Rightarrow> grads \<Rightarrow> derivs \<Rightarrow> derivs" where
  "assign_PH parXtype parYtype egrad =
     (let X = (parXtype = 3) in
      fold (\<lambda>u. u)
       [dPH_dX__Y_update (np_where X (Fin 1)),
        (let XY = (X \<and> parYtype = 1) in
          fold (\<lambda>u. u)
            [dTA_dX__Y_update (np_where XY (Fin 0)),
             dTC_dX__Y_update (np_where XY (dTC_dPH__TA egrad)),
             dFC_dX__Y_update (np_where XY (dFC_dPH__TA egrad)),
             dCARB_dX__Y_update (np_where XY (dCARB_dPH__TA egrad)),
             dHCO3_dX__Y_update (np_where XY (dHCO3_dPH__TA egrad))]),
        (let XY = (X \<and> parYtype = 2) in
          fold (\<lambda>u. u)
            [dTA_dX__Y_update (np_where XY (dTA_dPH__TC egrad)),
             dTC_dX__Y_update (np_where XY (Fin 0)),
             dFC_dX__Y_update (np_where XY (dFC_dPH__TC egrad)),
             dCARB_dX__Y_update (np_where XY (dCARB_dPH__TC egrad)),
             dHCO3_dX__Y_update (np_where XY (dHCO3_dPH__TC egrad))]),
        (let XY = (X \<and> parYtype \<in> {4, 5, 8}) in
          fold (\<lambda>u. u)
            [dTA_dX__Y_update (np_where XY (dTA_dPH__FC egrad)),
             dTC_dX__Y_update (np_where XY (dTC_dPH__FC egrad)),
             dFC_dX__Y_update (np_where XY (Fin 0)),
             dCARB_dX__Y_update (np_where XY (dCARB_dPH__FC egrad)),
             dHCO3_dX__Y_update (np_where XY (dHCO3_dPH__FC egrad))]),
        (let XY = (X \<and> parYtype = 6) in
          fold (\<lambda>u. u)
            [dTA_dX__Y_update (np_where XY (dTA_dPH__CARB egrad)),
             dTC_dX__Y_update (np_where XY (dTC_dPH__CARB egrad)),
             dFC_dX__Y_update (np_where XY (dFC_dPH__CARB egrad)),
             dCARB_dX__Y_update (np_where XY (Fin 0)),
             dHCO3_dX__Y_update (np_where XY (dHCO3_dPH__CARB egrad))]),
        (let XY = (X \<and> parYtype = 7) in
          fold (\<lambda>u. u)
            [dTA_dX__Y_update (np_where XY (dTA_dPH__HCO3 egrad)),
             dTC_dX__Y_update (np_where XY (dTC_dPH__HCO3 egrad)),
             dFC_dX__Y_update (np_where XY (dFC_dPH__HCO3 egrad)),
             dCARB_dX__Y_update (np_where XY (dCARB_dPH__HCO3 egrad)),
             dHCO3_dX__Y_update (np_where XY (Fin 0))])])"

text \<open>Lines 404 to 441.\<close>

definition assign_FC :: "int \<Rightarrow> int \<Rightarrow> grads \<Rightarrow> derivs \<Rightarrow> derivs" where
  "assign_FC parXtype parYtype egrad =
     (let X = (parXtype \<in> {4, 5, 8}) in
      fold (\<lambda>u. u)
       [dFC_dX__Y_update (np_where X (Fin 1)),
        (let XY = (X \<and> parYtype = 1) in
          fold (\<lambda>u. u)
            [dTA_dX__Y_update (np_where XY (Fin 0)),
             dTC_dX__Y_update (np_where XY (dTC_dFC__TA egrad)),
             dPH_dX__Y_update (np_where XY (dPH_dFC__TA egrad)),
             dCARB_dX__Y_update (np_where XY (dCARB_dFC__TA egrad)),
             dHCO3_dX__Y_update (np_where XY (dHCO3_dFC__TA egrad))]),
        (let XY = (X \<and> parYtype = 2) in
          fold (\<lambda>u. u)
            [dTA_dX__Y_update (np_where XY (dTA_dFC__TC egrad)),
             dTC_dX__Y_update (np_where XY (Fin 0)),
             dPH_dX__Y_update (np_where XY (dPH_dFC__TC egrad)),
             dCARB_dX__Y_update (np_where XY (dCARB_dFC__TC egrad)),
             dHCO3_dX__Y_update (np_where XY (dHCO3_dFC__TC egrad))]),
        (let XY = (X \<and> parYtype = 3) in
          fold (\<lambda>u. u)
            [dTA_dX__Y_update (np_where XY (dTA_dFC__PH egrad)),
             dTC_dX__Y_update (np_where XY (dTC_dFC__PH egrad)),
             dPH_dX__Y_update (np_where XY (Fin 0)),
             dCARB_dX__Y_update (np_where XY (dCARB_dFC__PH egrad)),
             dHCO3_dX__Y_update (np_where XY (dHCO3_dFC__PH egrad))]),
        (let XY = (X \<and> parYtype = 6) in
          fold (\<lambda>u. u)
            [dTA_dX__Y_update (np_where XY (dTA_dFC__CARB egrad)),
             dTC_dX__Y_update (np_where XY (dTC_dFC__CARB egrad)),
             dPH_dX__Y_update (np_where XY (dPH_dFC__CARB egrad)),
             dCARB_dX__Y_update (np_where XY (Fin 0)),
             dHCO3_dX__Y_update (np_where XY (dHCO3_dFC__CARB egrad))]),
        (let XY = (X \<and> parYtype = 7) in
          fold (\<lambda>u. u)
            [dTA_dX__Y_update (np_where XY (dTA_dFC__HCO3 egrad)),
             dTC_dX__Y_update (np_where XY (dTC_dFC__HCO3 egrad)),
             dPH_dX__Y_update (np_where XY (dPH_dFC__HCO3 egrad)),
             dCARB_dX__Y_update (np_where XY (dCARB_dFC__HCO3 egrad)),
             dHCO3_dX__Y_update (np_where XY (Fin 0))])])"

text \<open>Lines 442 to 479.\<close>

definition assign_CARB :: "int \<Rightarrow> int \<Rightarrow> grads \<Rightarrow> derivs \<Rightarrow> derivs" where
  "assign_CARB parXtype parYtype egrad =
     (let X = (parXtype = 6) in
      fold (\<lambda>u. u)
       [dCARB_dX__Y_update (np_where X (Fin 1)),
        (let XY = (X \<and> parYtype = 1) in
          fold (\<lambda>u. u)
            [dTA_dX__Y_update (np_where XY (Fin 0)),
             dTC_dX__Y_update (np_where XY (dTC_dCARB__TA egrad)),
             dPH_dX__Y_update (np_where XY (dPH_dCARB__TA egrad)),
             dFC_dX__Y_update (np_where XY (dFC_dCARB__TA egrad)),
             dHCO3_dX__Y_update (np_where XY (dHCO3_dCARB__TA egrad))]),
        (let XY = (X \<and> parYtype = 2) in
          fold (\<lambda>u. u)
            [dTA_dX__Y_update (np_where XY (dTA_dCARB__TC egrad)),
             dTC_dX__Y_update (np_where XY (Fin 0)),
             dPH_dX__Y_update (np_where XY (dPH_dCARB__TC egrad)),
             dFC_dX__Y_update (np_where XY (dFC_dCARB__TC egrad)),
             dHCO3_dX__Y_update (np_where XY (dHCO3_dCARB__TC egrad))]),
        (let XY = (X \<and> parYtype = 3) in
          fold (\<lambda>u. u)
            [dTA_dX__Y_update (np_where XY (dTA_dCARB__PH egrad)),
             dTC_dX__Y_update (np_where XY (dTC_dCARB__PH egrad)),
             dPH_dX__Y_update (np_where XY (Fin 0)),
             dFC_dX__Y_update (np_where XY (dFC_dCARB__PH egrad)),
             dHCO3_dX__Y_update (np_where XY (dHCO3_dCARB__PH egrad))]),
        (let XY = (X \<and> parYtype \<in> {4, 5, 8}) in
          fold (\<lambda>u. u)
            [dTA_dX__Y_update (np_where XY (dTA_dCARB__FC egrad)),
             dTC_dX__Y_update (np_where XY (dTC_dCARB__FC egrad)),
             dPH_dX__Y_update (np_where XY (dPH_dCARB__FC egrad)),
             dFC_dX__Y_update (np_where XY (Fin 0)),
             dHCO3_dX__Y_update (np_where XY (dHCO3_dCARB__FC egrad))]),
        (let XY = (X \<and> parYtype = 7) in
          fold (\<lambda>u. u)
            [dTA_dX__Y_update (np_where XY (dTA_dCARB__HCO3 egrad)),
             dTC_dX__Y_update (np_where XY (dTC_dCARB__HCO3 egrad)),
             dPH_dX__Y_update (np_where XY (dPH_dCARB__HCO3 egrad)),
             dFC_dX__Y_update (np_where XY (dFC_dCARB__HCO3 egrad)),
             dHCO3_dX__Y_update (np_where XY (Fin 0))])])"

text \<open>Lines 480 to 517.\<close>

definition assign_HCO3 :: "int \<Rightarrow> int \<Rightarrow> grads \<Rightarrow> derivs \<Rightarrow> derivs" where
  "assign_HCO3 parXtype parYtype egrad =
     (let X = (parXtype = 7) in
      fold (\<lambda>u. u)
       [dHCO3_dX__Y_update (np_where X (Fin 1)),
        (let XY = (X \<and> parYtype = 1) in
          fold (\<lambda>u. u)
            [dTA_dX__Y_update (np_where XY (Fin 0)),
             dTC_dX__Y_update (np_where XY (dTC_dHCO3__TA egrad)),
             dPH_dX__Y_update (np_where XY (dPH_dHCO3__TA egrad)),
             dFC_dX__Y_update (np_where XY (dFC_dHCO3__TA egrad)),
             dCARB_dX__Y_update (np_where XY (dCARB_dHCO3__TA egrad))]),
        (let XY = (X \<and> parYtype = 2) in
          fold (\<lambda>u. u)
            [dTA_dX__Y_update (np_where XY (dTA_dHCO3__TC egrad)),
             dTC_dX__Y_update (np_where XY (Fin 0)),
             dPH_dX__Y_update (np_where XY (dPH_dHCO3__TC egrad)),
             dFC_dX__Y_update (np_where XY (dFC_dHCO3__TC egrad)),
             dCARB_dX__Y_update (np_where XY (dCARB_dHCO3__TC egrad))]),
        (let XY = (X \<and> parYtype = 3) in
          fold (\<lambda>u. u)
            [dTA_dX__Y_update (np_where XY (dTA_dHCO3__PH egrad)),
             dTC_dX__Y_update (np_where XY (dTC_dHCO3__PH egrad)),
             dPH_dX__Y_update (np_where XY (Fin 0)),
             dFC_dX__Y_update (np_where XY (dFC_dHCO3__PH egrad)),
             dCARB_dX__Y_update (np_where XY (dCARB_dHCO3__PH egrad))]),
        (let XY = (X \<and> parYtype \<in> {4, 5, 8}) in
          fold (\<lambda>u. u)
            [dTA_dX__Y_update (np_where XY (dTA_dHCO3__FC egrad)),
             dTC_dX__Y_update (np_where XY (dTC_dHCO3__FC egrad)),
             dPH_dX__Y_update (np_where XY (dPH_dHCO3__FC egrad)),
             dFC_dX__Y_update (np_where XY (Fin 0)),
             dCARB_dX__Y_update (np_where XY (dCARB_dHCO3__FC egrad))]),
        (let XY = (X \<and> parYtype = 6) in
          fold (\<lambda>u. u)
            [dTA_dX__Y_update (np_where XY (dTA_dHCO3__CARB egrad)),
             dTC_dX__Y_update (np_where XY (dTC_dHCO3__CARB egrad)),
             dPH_dX__Y_update (np_where XY (dPH_dHCO3__CARB egrad)),
             dFC_dX__Y_update (np_where XY (dFC_dHCO3__CARB egrad)),
             dCARB_dX__Y_update (np_where XY (Fin 0))])])"

text \<open>\<open>dPC_dX__Y = dFC_dX__Y / Ks["FugFac"]\<close> and \<open>dCO2_dX__Y = dFC_dX__Y * K0\<close>.\<close>

definition from_fCO2 :: "npfloat \<Rightarrow> npfloat \<Rightarrow> derivs \<Rightarrow> derivs" where
  "from_fCO2 K0 FugFac d =
     d\<lparr>dPC_dX__Y := fl_div (dFC_dX__Y d) FugFac, dCO2_dX__Y := fl_mul (dFC_dX__Y d) K0\<rparr>"

definition update_pCO2 :: "int \<Rightarrow> npfloat \<Rightarrow> derivs \<Rightarrow> derivs" where
  "update_pCO2 parXtype FugFac =
     (let X = (parXtype = 4) in
      fold (\<lambda>u. u)
       [dTA_dX__Y_update (\<lambda>d. np_where X (fl_mul d FugFac) d),
        dTC_dX__Y_update (\<lambda>d. np_where X (fl_mul d FugFac) d),
        dPH_dX__Y_update (\<lambda>d. np_where X (fl_mul d FugFac) d),
        dPC_dX__Y_update (\<lambda>d. np_where X (fl_mul d FugFac) d),
        dFC_dX__Y_update (\<lambda>d. np_where X (fl_mul d FugFac) d),
        dCARB_dX__Y_update (\<lambda>d. np_where X (fl_mul d FugFac) d),
        dHCO3_dX__Y_update (\<lambda>d. np_where X (fl_mul d FugFac) d),
        dCO2_dX__Y_update (\<lambda>d. np_where X (fl_mul d FugFac) d)])"

definition update_CO2aq :: "int \<Rightarrow> npfloat \<Rightarrow> derivs \<Rightarrow> derivs" where
  "update_CO2aq parXtype K0 =
     (let X = (parXtype = 8) in
      fold (\<lambda>u. u)
       [dTA_dX__Y_update (\<lambda>d. np_where X (fl_div d K0) d),
        dTC_dX__Y_update (\<lambda>d. np_where X (fl_div d K0) d),
        dPH_dX__Y_update (\<lambda>d. np_where X (fl_div d K0) d),
        dPC_dX__Y_update (\<lambda>d. np_where X (fl_div d K0) d),
        dFC_dX__Y_update (\<lambda>d. np_where X (fl_div d K0) d),
        dCARB_dX__Y_update (\<lambda>d. np_where X (fl_div d K0) d),
        dHCO3_dX__Y_update (\<lambda>d. np_where X (fl_div d K0) d),
        dCO2_dX__Y_update (\<lambda>d. np_where X (fl_div d K0) d)])"

text \<open>
  The function itself. Of its arguments, the solved state \<open>TA\<close>, ..., \<open>HCO3\<close>, the
  totals and the constants \<open>K1\<close> and \<open>K2\<close> are only passed on to \<open>get\<close>; they are
  represented by \<open>egrad\<close>. \<open>K0\<close> and \<open>FugFac\<close> are the entries of \<open>Ks\<close> that the
  function reads itself. The type codes are one-dimensional arrays: the built-in
  \<open>any\<close> of lines 523 and 533 iterates over them.
\<close>

definition dcore_dparX__parY :: "int \<Rightarrow> int \<Rightarrow> grads \<Rightarrow> npfloat \<Rightarrow> npfloat \<Rightarrow> derivs" where
  "dcore_dparX__parY parXtype parYtype egrad K0 FugFac =
     fold (\<lambda>u. u)
       [assign_TA parXtype parYtype egrad,
        assign_TC parXtype parYtype egrad,
        assign_PH parXtype parYtype egrad,
        assign_FC parXtype parYtype egrad,
        assign_CARB parXtype parYtype egrad,
        assign_HCO3 parXtype parYtype egrad,
        from_fCO2 K0 FugFac,
        update_pCO2 parXtype FugFac,
        update_CO2aq parXtype K0]
       preallocate"

section \<open>Validation of the requested derivatives\<close>

text \<open>
  The arguments \<open>grads_of\<close> and \<open>grads_wrt\<close> of \<open>uncertainty.inputs\<close> are a single
  string or a list of strings.
\<close>

datatype pyarg = Str string | Lst "string list"

definition can_grad_wrt :: "string list" where
  "can_grad_wrt =
     [''PAR1'', ''PAR2'', ''SAL'', ''TEMPIN'', ''TEMPOUT'', ''PRESIN'', ''PRESOUT'',
      ''SI'', ''PO4'', ''NH3'', ''H2S'']"

text \<open>\<open>x in can_grad_wrt\<close> for a Python value \<open>x\<close>: a list is equal to no string.\<close>

fun in_strings :: "pyarg \<Rightarrow> string list \<Rightarrow> bool" where
  "in_strings (Str s) names = (s \<in> set names)"
| "in_strings (Lst l) names = False"

text \<open>Lines 41 to 49 of \<open>uncertainty.py\<close>; the first assertion has no message.\<close>

definition check_grads_wrt :: "pyarg \<Rightarrow> pyarg \<Rightarrow> error + string list" where
  "check_grads_wrt grads_of grads_wrt =
     (case (case grads_wrt of
              Str s \<Rightarrow>
                if \<not> (s = ''all'' \<or> in_strings grads_of can_grad_wrt)
                then Inl (AssertionError None)
                else if s = ''all'' then Inr can_grad_wrt else Inr [s]
            | Lst l \<Rightarrow> Inr l) of
        Inl e \<Rightarrow> Inl e
      | Inr wrt \<Rightarrow>
          if \<not> (\<forall>g \<in> set wrt. g \<in> set can_grad_wrt)
          then Inl (AssertionError (Some ''Invalid `grads_wrt` requested.''))
          else Inr wrt)"

text \<open>Lines 50 to 56; \<open>engine.gradables\<close> is not among the sources and is a parameter.\<close>

definition check_grads_of :: "string list \<Rightarrow> pyarg \<Rightarrow> error + string list" where
  "check_grads_of gradables grads_of =
     (case (case grads_of of
              Str s \<Rightarrow>
                if \<not> (s = ''all'' \<or> s \<in> set gradables)
                then Inl (AssertionError None)
                else if s = ''all'' then Inr gradables else Inr [s]
            | Lst l \<Rightarrow> Inr l) of
        Inl e \<Rightarrow> Inl e
      | Inr outs \<Rightarrow>
          if \<not> (\<forall>g \<in> set outs. g \<in> set gradables)
          then Inl (AssertionError (Some ''Invalid `grads_of` requested.''))
          else Inr outs)"

definition co2args_keys :: "string list" where
  "co2args_keys =
     [''PAR1'', ''PAR2'', ''PAR1TYPE'', ''PAR2TYPE'', ''SAL'', ''TEMPIN'', ''TEMPOUT'',
      ''PRESIN'', ''PRESOUT'', ''SI'', ''PO4'', ''NH3'', ''H2S'', ''pHSCALEIN'',
      ''K1K2CONSTANTS'', ''KSO4CONSTANT'', ''KFCONSTANT'', ''BORON'', ''buffers_mode'',
      ''KSO4CONSTANTS'']"

text \<open>
  \<open>inputs\<close>. The loop of lines 82 to 96 computes the finite differences with
  \<open>engine._CO2SYS\<close> and \<open>scipy.misc.derivative\<close>, which are not among the sources; it
  is the parameter \<open>loop\<close>, applied to \<open>co2args\<close> and the two checked lists.
\<close>

definition inputs ::
  "(string \<rightharpoonup> 'v) \<Rightarrow> pyarg \<Rightarrow> pyarg \<Rightarrow> string list \<Rightarrow>
   ((string \<rightharpoonup> 'v) \<Rightarrow> string list \<Rightarrow> string list \<Rightarrow> 'r) \<Rightarrow> error + 'r" where
  "inputs co2dict grads_of grads_wrt gradables loop =
     (case check_grads_wrt grads_of grads_wrt of
        Inl e \<Rightarrow> Inl e
      | Inr wrt \<Rightarrow>
          (case check_grads_of gradables grads_of of
             Inl e \<Rightarrow> Inl e
           | Inr outs \<Rightarrow>
               if \<not> set co2args_keys \<subseteq> dom co2dict then Inl KeyError
               else Inr (loop (co2dict |` set co2args_keys) outs wrt)))"

section \<open>Notions used to state the properties\<close>

text \<open>The distinct sizes other than 1 among the arguments of \<open>_flattenfirst\<close>.\<close>

definition distinct_sizes :: "'a ndarray list \<Rightarrow> nat set" where
  "distinct_sizes args = set (filter (\<lambda>n. n \<noteq> 1) (map np_size args))"

text \<open>
  The four pH values as the specification describes them, from the two conversion
  factors: \<open>pH_total = pH - factor\<close>, and the other scales add the log-ratio back.
  A scale tag other than 1 to 4 has no factor.
\<close>

definition spec_scales_from ::
  "npfloat \<Rightarrow> npfloat \<Rightarrow> npfloat \<Rightarrow> int \<Rightarrow> npfloat \<Rightarrow> npfloat \<times> npfloat \<times> npfloat \<times> npfloat" where
  "spec_scales_from FREEtoTOT SWStoTOT fh pHScale pH =
     (let factor =
            (if pHScale = 1 then Fin 0
             else if pHScale = 2 then fl_log10 SWStoTOT
             else if pHScale = 3 then fl_log10 FREEtoTOT
             else if pHScale = 4 then fl_log10 (fl_div SWStoTOT fh)
             else NaN);
          pH_total = fl_sub pH factor
      in (pH_total,
          fl_add pH_total (fl_log10 SWStoTOT),
          fl_add pH_total (fl_log10 FREEtoTOT),
          fl_add pH_total (fl_log10 (fl_div SWStoTOT fh))))"


text \<open>The same with \<open>SWStoTOT = FREEtoTOT / (FREEtoTOT + TF/KF)\<close>.\<close>

definition spec_amended_pH2allscales ::
  "npfloat \<Rightarrow> int \<Rightarrow> totals \<Rightarrow> equilibria \<Rightarrow> npfloat \<times> npfloat \<times> npfloat \<times> npfloat" where
  "spec_amended_pH2allscales pH pHScale tot eq =
     (let FREEtoTOT = fl_add (Fin 1) (fl_div (TSO4 tot) (KSO4 eq));
          SWStoTOT = fl_div FREEtoTOT (fl_add FREEtoTOT (fl_div (TF tot) (KF eq)))
      in spec_scales_from FREEtoTOT SWStoTOT (fH eq) pHScale pH)"

text \<open>
  The core variable that a type code stands for, as the comments of
  \<open>dcore_dparX__parY\<close> give it: 1 is TA, 2 is TC, 3 is pH, 4, 5 and 8 are pCO2, fCO2
  and CO2(aq), which share the role of fCO2, 6 is the carbonate ion and 7 bicarbonate.
\<close>

definition role :: "int \<Rightarrow> corevar option" where
  "role t =
     (if t = 1 then Some TA else if t = 2 then Some TC else if t = 3 then Some PH
      else if t \<in> {4, 5, 8} then Some FC else if t = 6 then Some CARB
      else if t = 7 then Some HCO3 else None)"

text \<open>The entry of the returned dictionary for a core variable.\<close>

fun out :: "corevar \<Rightarrow> derivs \<Rightarrow> npfloat" where
  "out TA = dTA_dX__Y"
| "out TC = dTC_dX__Y"
| "out PH = dPH_dX__Y"
| "out FC = dFC_dX__Y"
| "out CARB = dCARB_dX__Y"
| "out HCO3 = dHCO3_dX__Y"


text \<open>
  \<open>dvar_dPH egrad v y\<close> is the derivative of the variable \<open>v\<close> with respect to pH at
  fixed \<open>y\<close>: the gradient of the relation of \<open>get\<close> that gives \<open>v\<close> from pH and \<open>y\<close>,
  and 1 for pH itself.
\<close>

fun dvar_dPH :: "grads \<Rightarrow> corevar \<Rightarrow> corevar \<Rightarrow> npfloat" where
  "dvar_dPH egrad PH y = Fin 1"
| "dvar_dPH egrad TA TC = egrad TAfromTCpH PH"
| "dvar_dPH egrad FC TC = egrad fCO2fromTCpH PH"
| "dvar_dPH egrad CARB TC = egrad CarbfromTCpH PH"
| "dvar_dPH egrad HCO3 TC = egrad HCO3fromTCpH PH"
| "dvar_dPH egrad TC TA = egrad TCfromTApH PH"
| "dvar_dPH egrad FC TA = egrad fCO2fromTApH PH"
| "dvar_dPH egrad CARB TA = egrad CarbfromTApH PH"
| "dvar_dPH egrad HCO3 TA = egrad HCO3fromTApH PH"
| "dvar_dPH egrad TC CARB = egrad TCfrompHCarb PH"
| "dvar_dPH egrad TA CARB = egrad TAfrompHCarb PH"
| "dvar_dPH egrad FC CARB = egrad fCO2frompHCarb PH"
| "dvar_dPH egrad HCO3 CARB = egrad HCO3frompHCarb PH"
| "dvar_dPH egrad TC HCO3 = egrad TCfrompHHCO3 PH"
| "dvar_dPH egrad TA HCO3 = egrad TAfrompHHCO3 PH"
| "dvar_dPH egrad FC HCO3 = egrad fCO2frompHHCO3 PH"
| "dvar_dPH egrad CARB HCO3 = egrad CarbfrompHHCO3 PH"
| "dvar_dPH egrad TA FC = egrad TAfrompHfCO2 PH"
| "dvar_dPH egrad TC FC = egrad TCfrompHfCO2 PH"
| "dvar_dPH egrad CARB FC = egrad CarbfrompHfCO2 PH"
| "dvar_dPH egrad HCO3 FC = egrad HCO3frompHfCO2 PH"
| "dvar_dPH egrad v y = NaN"

text \<open>
  The pairs for which the function divides two pH-derivatives: neither variable is pH,
  and one of the two is TA or TC.
\<close>

definition implicit_route :: "corevar \<Rightarrow> corevar \<Rightarrow> bool" where
  "implicit_route x y =
     (x \<noteq> y \<and> x \<noteq> PH \<and> y \<noteq> PH \<and> (x \<in> {TA, TC} \<or> y \<in> {TA, TC}))"

text \<open>The last step of the function: the change of variable when parX is pCO2 or CO2(aq).\<close>

definition rescale :: "int \<Rightarrow> npfloat \<Rightarrow> npfloat \<Rightarrow> npfloat \<Rightarrow> npfloat" where
  "rescale parXtype K0 FugFac v =
     (if parXtype = 4 then fl_mul v FugFac else if parXtype = 8 then fl_div v K0 else v)"

text \<open>Two assignments of values to the gradients, for concrete evaluations.\<close>

definition unit_grads :: grads where
  "unit_grads f v = Fin 1"

definition sample_grads :: grads where
  "sample_grads f v = (if f = fCO2fromTCpH then Fin 6 else if f = TCfromTApH then Fin 4 else Fin 2)"

section \<open>Properties of the option codes\<close>

lemma old2new_code:
  "k \<in> {1, 2, 3, 4} \<Longrightarrow>
   options_old2new (Scalar k) = Inr ([if k \<in> {1, 3} then 1 else 2], [if k \<in> {1, 2} then 1 else 2])"
  by (elim insertE emptyE; simp add: options_old2new_def only2KSO4_def only2BORON_def Let_def)

lemma new2old_single:
  "s \<in> {1, 2} \<Longrightarrow> b \<in> {1, 2} \<Longrightarrow> np_size S = 1 \<Longrightarrow> np_size B = 1 \<Longrightarrow>
   ravel S = [s] \<Longrightarrow> ravel B = [b] \<Longrightarrow>
   options_new2old S B = Inr [s + 2 * (b - 1)]"
  by (elim insertE emptyE;
      simp add: options_new2old_def flattenfirst_def flatten_arg_def pair2one_def Let_def)

text \<open>
  C8. \<open>options_old2new\<close> and \<open>options_new2old\<close> are inverse to each other between the
  legacy codes 1 to 4 and the pairs of \<open>KSO4CONSTANT\<close> and \<open>BORON\<close> in 1 to 2: a legacy
  code is mapped to such a pair, from which \<open>options_new2old\<close> gives the code back,
  and a pair is mapped to a legacy code, from which \<open>options_old2new\<close> gives the pair
  back. The functions return arrays; a scalar comes back as an array of one element.
\<close>

theorem options_bijection:
  "(k \<in> {1, 2, 3, 4} \<longrightarrow>
      (\<exists>s \<in> {1, 2}. \<exists>b \<in> {1, 2}.
         options_old2new (Scalar k) = Inr ([s], [b]) \<and>
         options_new2old (Array [s]) (Array [b]) = Inr [k])) \<and>
   (s' \<in> {1, 2} \<longrightarrow> b' \<in> {1, 2} \<longrightarrow>
      (\<exists>k' \<in> {1, 2, 3, 4}.
         options_new2old (Scalar s') (Scalar b') = Inr [k'] \<and>
         options_old2new (Array [k']) = Inr ([s'], [b'])))"
proof (intro conjI impI)
  assume k: "k \<in> {1, 2, 3, 4}"
  let ?s = "if k \<in> {1, 3} then 1 else 2 :: int"
  let ?b = "if k \<in> {1, 2} then 1 else 2 :: int"
  have old2new: "options_old2new (Scalar k) = Inr ([?s], [?b])"
    using k by (rule old2new_code)
  have "options_new2old (Array [?s]) (Array [?b]) = Inr [?s + 2 * (?b - 1)]"
    by (rule new2old_single) simp_all
  moreover have "?s + 2 * (?b - 1) = k"
    using k by (elim insertE emptyE; simp)
  ultimately have new2old: "options_new2old (Array [?s]) (Array [?b]) = Inr [k]"
    by simp
  show "\<exists>s \<in> {1, 2}. \<exists>b \<in> {1, 2}.
      options_old2new (Scalar k) = Inr ([s], [b]) \<and>
      options_new2old (Array [s]) (Array [b]) = Inr [k]"
  proof (intro bexI conjI)
    show "options_old2new (Scalar k) = Inr ([?s], [?b])"
      by (rule old2new)
    show "options_new2old (Array [?s]) (Array [?b]) = Inr [k]"
      by (rule new2old)
  qed simp_all
next
  assume sb: "s' \<in> {1, 2}" "b' \<in> {1, 2}"
  let ?k = "s' + 2 * (b' - 1)"
  have new2old: "options_new2old (Scalar s') (Scalar b') = Inr [?k]"
    using sb by (intro new2old_single) simp_all
  have old2new: "options_old2new (Array [?k]) = Inr ([s'], [b'])"
    using sb
    by (elim insertE emptyE; simp add: options_old2new_def only2KSO4_def only2BORON_def Let_def)
  have range: "?k \<in> {1, 2, 3, 4}"
    using sb by (elim insertE emptyE; simp)
  show "\<exists>k' \<in> {1, 2, 3, 4}.
      options_new2old (Scalar s') (Scalar b') = Inr [k'] \<and>
      options_old2new (Array [k']) = Inr ([s'], [b'])"
    using new2old old2new range by blast
qed

theorem options_bijection_witness:
  "(3::int) \<in> {1, 2, 3, 4} \<and> (2::int) \<in> {1, 2} \<and> (1::int) \<in> {1, 2} \<and>
   (\<exists>s \<in> {1, 2}. \<exists>b \<in> {1, 2}.
      options_old2new (Scalar 3) = Inr ([s], [b]) \<and>
      options_new2old (Array [s]) (Array [b]) = Inr [3]) \<and>
   (\<exists>k' \<in> {1, 2, 3, 4}.
      options_new2old (Scalar 2) (Scalar 1) = Inr [k'] \<and>
      options_old2new (Array [k']) = Inr ([2], [1]))"
  using options_bijection [of 3 2 1] by simp

section \<open>Properties of the validation in \<open>inputs\<close>\<close>

lemma all_not_gradable_wrt: "s \<in> set can_grad_wrt \<Longrightarrow> s \<noteq> ''all''"
  by (auto simp: can_grad_wrt_def)

text \<open>With \<open>grads_wrt\<close> given as a list, both assertions with a message are reached.\<close>

lemma inputs_invalid_wrt_list:
  "\<exists>g \<in> set wrt. g \<notin> set can_grad_wrt \<Longrightarrow>
   inputs co2dict grads_of (Lst wrt) gradables loop =
     Inl (AssertionError (Some ''Invalid `grads_wrt` requested.''))"
  by (simp add: inputs_def check_grads_wrt_def)

lemma inputs_invalid_of_list:
  "\<forall>g \<in> set wrt. g \<in> set can_grad_wrt \<Longrightarrow> \<exists>g \<in> set outs. g \<notin> set gradables \<Longrightarrow>
   inputs co2dict (Lst outs) (Lst wrt) gradables loop =
     Inl (AssertionError (Some ''Invalid `grads_of` requested.''))"
  by (simp add: inputs_def check_grads_wrt_def check_grads_of_def)

text \<open>
  C9. When \<open>grads_wrt\<close> is a single supported input name, the first assertion of
  \<open>inputs\<close> tests whether \<open>grads_of\<close>, not \<open>grads_wrt\<close>, is in the list of supported
  inputs: whenever \<open>grads_of\<close> is a list of output names the call raises an
  \<open>AssertionError\<close> (without a message), though the requested input is supported; with
  \<open>grads_of\<close> a single string, the check of \<open>grads_wrt\<close> passes exactly when that
  string is a supported input name.
\<close>

theorem inputs_single_wrt_rejected:
  "s \<in> set can_grad_wrt \<Longrightarrow>
   inputs co2dict (Lst outs) (Str s) gradables loop = Inl (AssertionError None) \<and>
   check_grads_wrt (Str t) (Str s) =
     (if t \<in> set can_grad_wrt then Inr [s] else Inl (AssertionError None))"
proof -
  assume s: "s \<in> set can_grad_wrt"
  then have "s \<noteq> ''all''"
    by (rule all_not_gradable_wrt)
  then show ?thesis
    using s by (simp add: inputs_def check_grads_wrt_def)
qed

theorem inputs_single_wrt_rejected_witness:
  "''SAL'' \<in> set can_grad_wrt \<and>
   inputs (Map.empty :: string \<rightharpoonup> unit) (Lst [''pHout'']) (Str ''SAL'') [''pHout''] (\<lambda>_ _ _. ())
     = Inl (AssertionError None) \<and>
   check_grads_wrt (Str ''PAR1'') (Str ''SAL'') = Inr [''SAL'']"
proof -
  have sal: "''SAL'' \<in> set can_grad_wrt"
    by (simp add: can_grad_wrt_def)
  have par1: "''PAR1'' \<in> set can_grad_wrt"
    by (simp add: can_grad_wrt_def)
  show ?thesis
    using sal par1
      inputs_single_wrt_rejected [OF sal, of Map.empty "[''pHout'']" "[''pHout'']" "\<lambda>_ _ _. ()" "''PAR1''"]
    by simp
qed

text \<open>
  C7. A request for the derivatives of an output that cannot be differentiated should be
  rejected with the message of the last assertion. With \<open>grads_wrt\<close> given as the list
  \<open>["SAL"]\<close> it is; with \<open>grads_wrt\<close> given as the single name \<open>"SAL"\<close> the first
  assertion, which has no message, fails before.
\<close>

theorem inputs_invalid_of_single_wrt:
  "inputs co2dict (Lst [''bogus'']) (Lst [''SAL'']) [''pHout''] loop =
     Inl (AssertionError (Some ''Invalid `grads_of` requested.'')) \<and>
   inputs co2dict (Lst [''bogus'']) (Str ''SAL'') [''pHout''] loop = Inl (AssertionError None)"
  by (simp add: inputs_def check_grads_wrt_def check_grads_of_def can_grad_wrt_def)

section \<open>Properties of the floating-point operations\<close>

lemma fl_add_NaN_right: "fl_add x NaN = NaN"
  by (cases x) simp_all



text \<open>Multiplying by a reciprocal is dividing, also at zero and at the infinities.\<close>

lemma fl_mul_recip: "fl_mul (fl_div (Fin 1) w) f = fl_div f w"
  by (cases w; cases f) (auto simp: signed_inf_def field_simps zero_less_divide_iff)


section \<open>Properties of the pH scale conversions\<close>

lemmas factor_defs = sws2tot_def sws2free_def free2sws_def free2tot_def

lemma pH2allscales_as_specified:
  "pH2allscales pH pHScale tot eq = spec_amended_pH2allscales pH pHScale tot eq"
  by (simp add: pH2allscales_def spec_amended_pH2allscales_def spec_scales_from_def np_where_def
      Let_def factor_defs fl_mul_recip)

text \<open>
  For positive constants and totals that are not negative all values are finite; for
  a pH given on the Seawater scale the four results are these.
\<close>

lemma pH2allscales_seawater_reals:
  assumes "0 < kso4" "0 < kf" "0 < fh" "0 \<le> tso4" "0 \<le> tf"
    and "F = 1 + tso4 / kso4" "S = F / (F + tf / kf)"
  shows "pH2allscales (Fin pH) 2 \<lparr>TSO4 = Fin tso4, TF = Fin tf\<rparr>
           \<lparr>KSO4 = Fin kso4, KF = Fin kf, fH = Fin fh\<rparr> =
         (Fin (pH - log 10 S), Fin (pH - log 10 S + log 10 S),
          Fin (pH - log 10 S + log 10 F), Fin (pH - log 10 S + log 10 (S / fh)))"
proof -
  have F: "0 < F"
    using assms by (simp add: add_pos_nonneg)
  have W: "0 < F + tf / kf"
    using F assms by (simp add: add_pos_nonneg)
  have S: "0 < S"
    using F W assms(7) by simp
  show ?thesis
    using F W S assms
    by (simp add: pH2allscales_as_specified spec_amended_pH2allscales_def spec_scales_from_def
        fl_sub_def Let_def)
qed






text \<open>
  C10. For a scale tag outside 1 to 4 the conversion factor stays not-a-number, and all
  four returned pH values are not-a-number; no exception is raised.
\<close>

theorem pH2allscales_unknown_scale:
  "pHScale \<notin> {1, 2, 3, 4} \<Longrightarrow> pH2allscales pH pHScale tot eq = (NaN, NaN, NaN, NaN)"
  by (simp add: pH2allscales_def np_where_def fl_sub_def Let_def fl_add_NaN_right)

theorem pH2allscales_unknown_scale_witness:
  "(5::int) \<notin> {1, 2, 3, 4} \<and>
   pH2allscales (Fin 8) 5 \<lparr>TSO4 = Fin 1, TF = Fin 1\<rparr> \<lparr>KSO4 = Fin 1, KF = Fin 1, fH = Fin 1\<rparr>
     = (NaN, NaN, NaN, NaN)"
  using pH2allscales_unknown_scale [of 5 "Fin 8" "\<lparr>TSO4 = Fin 1, TF = Fin 1\<rparr>"
      "\<lparr>KSO4 = Fin 1, KF = Fin 1, fH = Fin 1\<rparr>"]
  by simp

section \<open>Properties of \<open>_flattenfirst\<close>\<close>

lemma unique_sizes:
  "(length (remdups (filter (\<lambda>n. n \<noteq> 1) (map np_size args))) \<le> 1)
     = (card (distinct_sizes args) \<le> 1)"
  by (simp add: distinct_sizes_def length_remdups_card_conv)

lemma np_max_not_assert: "np_max ns \<noteq> Inl (AssertionError m)"
  by (cases ns) simp_all

lemma np_max_Max:
  assumes "args \<noteq> []"
  shows "np_max (map np_size args) = Inr (Max (np_size ` set args))"
proof (cases args)
  case Nil
  then show ?thesis using assms by simp
next
  case (Cons a list)
  have "Max (set (np_size a # map np_size list)) = fold max (map np_size list) (np_size a)"
    by (rule Max.set_eq_fold)
  then show ?thesis using Cons by simp
qed

lemma flattenfirst_raises:
  "(flattenfirst args dtype = Inl (AssertionError (Some length_message)))
     = (1 < card (distinct_sizes args))"
  unfolding flattenfirst_def Let_def unique_sizes
  by (cases "np_max (map np_size args)") (auto simp: not_le np_max_not_assert)

lemma flattenfirst_returns:
  assumes "args \<noteq> []" "\<not> 1 < card (distinct_sizes args)"
  shows "flattenfirst args dtype =
    Inr (map (flatten_arg (Max (np_size ` set args)) dtype) args, Max (np_size ` set args))"
  unfolding flattenfirst_def Let_def unique_sizes
  using assms by (simp add: np_max_Max not_less)

text \<open>When the assertion holds and no argument is empty, every size is 1 or the maximum.\<close>

lemma sizes_1_or_max:
  assumes "\<not> 1 < card (distinct_sizes args)" "a \<in> set args" "\<forall>a \<in> set args. np_size a \<noteq> 0"
  shows "np_size a = 1 \<or> np_size a = Max (np_size ` set args)"
proof (cases "np_size a = 1")
  case True
  then show ?thesis by simp
next
  case False
  let ?M = "Max (np_size ` set args)"
  have fin: "finite (distinct_sizes args)"
    by (simp add: distinct_sizes_def)
  have a_in: "np_size a \<in> distinct_sizes args"
    using assms(2) False by (auto simp: distinct_sizes_def)
  have "np_size a \<le> ?M"
    using assms(2) by simp
  moreover have "np_size a \<noteq> 0"
    using assms(2,3) by blast
  ultimately have "?M \<noteq> 1"
    using False by linarith
  moreover have "?M \<in> np_size ` set args"
    using assms(2) by (intro Max_in) auto
  ultimately have M_in: "?M \<in> distinct_sizes args"
    by (auto simp: distinct_sizes_def)
  have "card (distinct_sizes args) \<le> Suc 0"
    using assms(1) by simp
  then have "np_size a = ?M"
    using fin a_in M_in by (simp add: card_le_Suc0_iff_eq)
  then show ?thesis by simp
qed

lemma length_flatten_arg:
  "np_size a = 1 \<or> np_size a = npts \<Longrightarrow> length (flatten_arg npts dtype a) = npts"
  by (cases a) (auto simp: flatten_arg_def)

lemma flatten_arg_nth:
  "np_size a = 1 \<or> np_size a = npts \<Longrightarrow> j < npts \<Longrightarrow>
   flatten_arg npts dtype a ! j = dtype (ravel a ! (if np_size a = 1 then 0 else j))"
  by (cases a) (auto simp: flatten_arg_def length_Suc_conv)

text \<open>
  C6, amended. \<open>_flattenfirst\<close> raises the assertion error, with the message that the
  inputs must all be the same length as each other or of length 1, if and only if the
  arguments have more than one distinct size other than 1. Otherwise, for a tuple that
  is not empty, it returns \<open>npts\<close> equal to the maximum argument size together with
  one vector for each argument; when no argument is empty, every vector has the length
  \<open>npts\<close>, an argument of size 1 being repeated and any other argument flattened.
\<close>

theorem flattenfirst_broadcast:
  "(flattenfirst args dtype = Inl (AssertionError (Some length_message)))
     = (1 < card (distinct_sizes args)) \<and>
   (args \<noteq> [] \<longrightarrow> \<not> 1 < card (distinct_sizes args) \<longrightarrow>
      (let npts = Max (np_size ` set args) in
       \<exists>flat. flattenfirst args dtype = Inr (flat, npts) \<and> length flat = length args \<and>
         ((\<forall>a \<in> set args. np_size a \<noteq> 0) \<longrightarrow>
            (\<forall>i < length args. length (flat ! i) = npts \<and>
               (\<forall>j < npts. flat ! i ! j =
                  dtype (ravel (args ! i) ! (if np_size (args ! i) = 1 then 0 else j)))))))"
proof (intro conjI impI)
  show "(flattenfirst args dtype = Inl (AssertionError (Some length_message)))
     = (1 < card (distinct_sizes args))"
    by (rule flattenfirst_raises)
next
  assume ne: "args \<noteq> []" and ok: "\<not> 1 < card (distinct_sizes args)"
  let ?M = "Max (np_size ` set args)"
  let ?flat = "map (flatten_arg ?M dtype) args"
  have ret: "flattenfirst args dtype = Inr (?flat, ?M)"
    using ne ok by (rule flattenfirst_returns)
  have elems: "length (?flat ! i) = ?M \<and>
      (\<forall>j < ?M. ?flat ! i ! j = dtype (ravel (args ! i) ! (if np_size (args ! i) = 1 then 0 else j)))"
    if nz: "\<forall>a \<in> set args. np_size a \<noteq> 0" and i: "i < length args" for i
  proof -
    have "args ! i \<in> set args"
      using i by simp
    then have "np_size (args ! i) = 1 \<or> np_size (args ! i) = ?M"
      using ok nz by (intro sizes_1_or_max) auto
    then show ?thesis
      using i by (simp add: length_flatten_arg flatten_arg_nth)
  qed
  show "let npts = ?M in
       \<exists>flat. flattenfirst args dtype = Inr (flat, npts) \<and> length flat = length args \<and>
         ((\<forall>a \<in> set args. np_size a \<noteq> 0) \<longrightarrow>
            (\<forall>i < length args. length (flat ! i) = npts \<and>
               (\<forall>j < npts. flat ! i ! j =
                  dtype (ravel (args ! i) ! (if np_size (args ! i) = 1 then 0 else j)))))"
    unfolding Let_def
    by (rule exI [of _ ?flat]) (use ret elems in simp)
qed

theorem flattenfirst_broadcast_witness:
  "[Scalar (5::int), Array [1, 2, 3]] \<noteq> [] \<and>
   \<not> 1 < card (distinct_sizes [Scalar (5::int), Array [1, 2, 3]]) \<and>
   np_size (Scalar (5::int)) \<noteq> 0 \<and> np_size (Array [1, 2, 3::int]) \<noteq> 0 \<and>
   flattenfirst [Scalar (5::int), Array [1, 2, 3]] id \<noteq> Inl (AssertionError (Some length_message)) \<and>
   (\<exists>flat. flattenfirst [Scalar (5::int), Array [1, 2, 3]] id = Inr (flat, 3) \<and>
      length flat = 2 \<and> length (flat ! 0) = 3 \<and> length (flat ! 1) = 3 \<and>
      flat ! 0 ! 2 = 5 \<and> flat ! 1 ! 2 = 3)"
proof -
  have "flattenfirst [Scalar (5::int), Array [1, 2, 3]] id \<noteq> Inl (AssertionError (Some length_message)) \<and>
     (\<exists>flat. flattenfirst [Scalar (5::int), Array [1, 2, 3]] id = Inr (flat, Suc (Suc (Suc 0))) \<and>
        length flat = Suc (Suc 0) \<and>
        (\<forall>i < Suc (Suc 0). length (flat ! i) = Suc (Suc (Suc 0)) \<and>
           (\<forall>j < Suc (Suc (Suc 0)). flat ! i ! j =
              ravel ([Scalar 5, Array [1, 2, 3]] ! i) !
                (if np_size ([Scalar (5::int), Array [1, 2, 3]] ! i) = Suc 0 then 0 else j))))"
    using flattenfirst_broadcast [of "[Scalar (5::int), Array [1, 2, 3]]" id]
    by (simp add: distinct_sizes_def Let_def)
  then obtain flat where raised:
    "flattenfirst [Scalar (5::int), Array [1, 2, 3]] id \<noteq> Inl (AssertionError (Some length_message))"
    and ret: "flattenfirst [Scalar (5::int), Array [1, 2, 3]] id = Inr (flat, Suc (Suc (Suc 0)))"
    and len: "length flat = Suc (Suc 0)"
    and elems: "\<forall>i < Suc (Suc 0). length (flat ! i) = Suc (Suc (Suc 0)) \<and>
           (\<forall>j < Suc (Suc (Suc 0)). flat ! i ! j =
              ravel ([Scalar 5, Array [1, 2, 3]] ! i) !
                (if np_size ([Scalar (5::int), Array [1, 2, 3]] ! i) = Suc 0 then 0 else j))"
    by blast
  have e0: "length (flat ! 0) = 3 \<and> flat ! 0 ! 2 = 5"
    using elems [rule_format, of 0] by (simp add: eval_nat_numeral)
  have e1: "length (flat ! 1) = 3 \<and> flat ! 1 ! 2 = 3"
    using elems [rule_format, of 1] by (simp add: eval_nat_numeral)
  have "flattenfirst [Scalar (5::int), Array [1, 2, 3]] id = Inr (flat, 3) \<and> length flat = 2"
    using ret len by (simp add: eval_nat_numeral)
  then show ?thesis
    using raised e0 e1 by (auto simp: distinct_sizes_def)
qed

text \<open>
  As the specification has it, for every tuple, it fails: for the empty tuple \<open>np.max\<close>
  raises \<open>ValueError\<close>, and for an empty array beside an array of size 1 the vectors
  returned have the lengths 0 and 1.
\<close>

theorem flattenfirst_broadcast_counterexample:
  "flattenfirst ([] :: int ndarray list) id = Inl ValueError \<and>
   flattenfirst [Array [], Array [5::int]] id = Inr ([[], [5]], 1)"
  by (simp add: flattenfirst_def flatten_arg_def Let_def)

section \<open>Properties of \<open>dcore_dparX__parY\<close>\<close>

lemmas assign_defs =
  assign_TA_def assign_TC_def assign_PH_def assign_FC_def assign_CARB_def assign_HCO3_def

lemmas final_defs = from_fCO2_def update_pCO2_def update_CO2aq_def

lemma role_cases: "role t = Some v \<Longrightarrow> t \<in> {1, 2, 3, 4, 5, 6, 7, 8}"
  by (auto simp: role_def split: if_splits)


lemmas inter_defs =
  dTA_dPH__TC_def dFC_dPH__TC_def dCARB_dPH__TC_def dHCO3_dPH__TC_def dTC_dPH__TA_def
  dFC_dPH__TA_def dCARB_dPH__TA_def dHCO3_dPH__TA_def dTC_dPH__CARB_def dTA_dPH__CARB_def
  dFC_dPH__CARB_def dHCO3_dPH__CARB_def dTC_dPH__HCO3_def dTA_dPH__HCO3_def dFC_dPH__HCO3_def
  dCARB_dPH__HCO3_def dTA_dPH__FC_def dTC_dPH__FC_def dCARB_dPH__FC_def dHCO3_dPH__FC_def
  dPH_dTA__TC_def dFC_dTA__TC_def dCARB_dTA__TC_def dHCO3_dTA__TC_def dTC_dTA__PH_def
  dFC_dTA__PH_def dCARB_dTA__PH_def dHCO3_dTA__PH_def dTC_dTA__FC_def dPH_dTA__FC_def
  dCARB_dTA__FC_def dHCO3_dTA__FC_def dTC_dTA__CARB_def dPH_dTA__CARB_def dFC_dTA__CARB_def
  dHCO3_dTA__CARB_def dTC_dTA__HCO3_def dPH_dTA__HCO3_def dFC_dTA__HCO3_def dCARB_dTA__HCO3_def
  dPH_dTC__TA_def dFC_dTC__TA_def dCARB_dTC__TA_def dHCO3_dTC__TA_def dTA_dTC__PH_def
  dFC_dTC__PH_def dCARB_dTC__PH_def dHCO3_dTC__PH_def dTA_dTC__FC_def dPH_dTC__FC_def
  dCARB_dTC__FC_def dHCO3_dTC__FC_def dTA_dTC__CARB_def dPH_dTC__CARB_def dFC_dTC__CARB_def
  dHCO3_dTC__CARB_def dTA_dTC__HCO3_def dPH_dTC__HCO3_def dFC_dTC__HCO3_def dCARB_dTC__HCO3_def
  dTC_dFC__TA_def dPH_dFC__TA_def dCARB_dFC__TA_def dHCO3_dFC__TA_def dTA_dFC__TC_def
  dPH_dFC__TC_def dCARB_dFC__TC_def dHCO3_dFC__TC_def dTA_dFC__PH_def dTC_dFC__PH_def
  dCARB_dFC__PH_def dHCO3_dFC__PH_def dTA_dFC__CARB_def dTC_dFC__CARB_def dPH_dFC__CARB_def
  dHCO3_dFC__CARB_def dTA_dFC__HCO3_def dTC_dFC__HCO3_def dPH_dFC__HCO3_def dCARB_dFC__HCO3_def
  dTC_dCARB__TA_def dPH_dCARB__TA_def dFC_dCARB__TA_def dHCO3_dCARB__TA_def dTA_dCARB__TC_def
  dPH_dCARB__TC_def dFC_dCARB__TC_def dHCO3_dCARB__TC_def dTA_dCARB__PH_def dTC_dCARB__PH_def
  dFC_dCARB__PH_def dHCO3_dCARB__PH_def dTA_dCARB__FC_def dTC_dCARB__FC_def dPH_dCARB__FC_def
  dHCO3_dCARB__FC_def dTA_dCARB__HCO3_def dTC_dCARB__HCO3_def dPH_dCARB__HCO3_def
  dFC_dCARB__HCO3_def dTC_dHCO3__TA_def dPH_dHCO3__TA_def dFC_dHCO3__TA_def dCARB_dHCO3__TA_def
  dTA_dHCO3__TC_def dPH_dHCO3__TC_def dFC_dHCO3__TC_def dCARB_dHCO3__TC_def dTC_dHCO3__PH_def
  dTA_dHCO3__PH_def dFC_dHCO3__PH_def dCARB_dHCO3__PH_def dTA_dHCO3__FC_def dTC_dHCO3__FC_def
  dPH_dHCO3__FC_def dCARB_dHCO3__FC_def dTA_dHCO3__CARB_def dTC_dHCO3__CARB_def
  dPH_dHCO3__CARB_def dFC_dHCO3__CARB_def

text \<open>A block whose condition on parX is false changes nothing.\<close>

lemma assign_TA_skip: "parXtype \<noteq> 1 \<Longrightarrow> assign_TA parXtype parYtype egrad d = d"
  by (cases d) (simp add: assign_TA_def np_where_def Let_def)

lemma assign_TC_skip: "parXtype \<noteq> 2 \<Longrightarrow> assign_TC parXtype parYtype egrad d = d"
  by (cases d) (simp add: assign_TC_def np_where_def Let_def)

lemma assign_PH_skip: "parXtype \<noteq> 3 \<Longrightarrow> assign_PH parXtype parYtype egrad d = d"
  by (cases d) (simp add: assign_PH_def np_where_def Let_def)

lemma assign_FC_skip: "parXtype \<notin> {4, 5, 8} \<Longrightarrow> assign_FC parXtype parYtype egrad d = d"
  by (cases d) (simp add: assign_FC_def np_where_def Let_def)

lemma assign_CARB_skip: "parXtype \<noteq> 6 \<Longrightarrow> assign_CARB parXtype parYtype egrad d = d"
  by (cases d) (simp add: assign_CARB_def np_where_def Let_def)

lemma assign_HCO3_skip: "parXtype \<noteq> 7 \<Longrightarrow> assign_HCO3 parXtype parYtype egrad d = d"
  by (cases d) (simp add: assign_HCO3_def np_where_def Let_def)

lemmas assign_skip =
  assign_TA_skip assign_TC_skip assign_PH_skip assign_FC_skip assign_CARB_skip assign_HCO3_skip

text \<open>The last step rescales each of the six core entries.\<close>

lemma out_dcore:
  "out v (dcore_dparX__parY parXtype parYtype egrad K0 FugFac) =
   rescale parXtype K0 FugFac
     (out v (assign_HCO3 parXtype parYtype egrad (assign_CARB parXtype parYtype egrad
       (assign_FC parXtype parYtype egrad (assign_PH parXtype parYtype egrad
         (assign_TC parXtype parYtype egrad (assign_TA parXtype parYtype egrad preallocate)))))))"
  by (cases v; simp add: dcore_dparX__parY_def final_defs np_where_def Let_def rescale_def)

text \<open>
  The six entries after the assignments, for a pair of the implicit-function route:
  1 for the variable of parX, 0 for the variable of parY, and the quotient of two
  pH-derivatives at fixed parY for the others.
\<close>

lemma assigned_implicit:
  assumes "role parXtype = Some x" "role parYtype = Some y" "implicit_route x y"
  shows "assign_HCO3 parXtype parYtype egrad (assign_CARB parXtype parYtype egrad
       (assign_FC parXtype parYtype egrad (assign_PH parXtype parYtype egrad
         (assign_TC parXtype parYtype egrad (assign_TA parXtype parYtype egrad preallocate)))))
      = (let q = (\<lambda>v. if v = x then Fin 1 else if v = y then Fin 0
                         else fl_div (dvar_dPH egrad v y) (dvar_dPH egrad x y))
         in \<lparr>dTA_dX__Y = q TA, dTC_dX__Y = q TC, dPH_dX__Y = q PH, dPC_dX__Y = NaN,
             dFC_dX__Y = q FC, dCARB_dX__Y = q CARB, dHCO3_dX__Y = q HCO3, dCO2_dX__Y = NaN\<rparr>)"
proof -
  have "parXtype \<in> {1, 2, 3, 4, 5, 6, 7, 8}" "parYtype \<in> {1, 2, 3, 4, 5, 6, 7, 8}"
    using assms(1,2) by (auto dest: role_cases)
  then show ?thesis
    using assms
    apply (elim insertE emptyE)
    apply (simp_all add: assign_skip role_def implicit_route_def)
    apply (simp_all add: assign_defs np_where_def Let_def preallocate_def inter_defs)
    done
qed

text \<open>
  C1, amended. For a batch element whose pair (parX, parY) takes the implicit-function
  route (neither is pH, one of them is TA or TC) and for a core output O other than the
  variables of parX and parY, \<open>dcore_dparX__parY\<close> returns for O the quotient of the
  pH-derivative of O at fixed parY by the pH-derivative of the variable of parX at fixed
  parY (fCO2 for the types 4, 5 and 8), both gradients of the relations of \<open>get\<close>,
  with 1 as the numerator when O is pH. The quotient is returned as it is when parX has
  type 1, 2, 5, 6 or 7; it is multiplied by \<open>FugFac\<close> when parX is pCO2 (type 4) and
  divided by \<open>K0\<close> when parX is CO2(aq) (type 8).
\<close>

theorem implicit_route_quotient:
  assumes "role parXtype = Some x" "role parYtype = Some y" "implicit_route x y" "v \<notin> {x, y}"
  shows "out v (dcore_dparX__parY parXtype parYtype egrad K0 FugFac) =
         rescale parXtype K0 FugFac (fl_div (dvar_dPH egrad v y) (dvar_dPH egrad x y))"
proof -
  have "out v (assign_HCO3 parXtype parYtype egrad (assign_CARB parXtype parYtype egrad
       (assign_FC parXtype parYtype egrad (assign_PH parXtype parYtype egrad
         (assign_TC parXtype parYtype egrad (assign_TA parXtype parYtype egrad preallocate))))))
      = fl_div (dvar_dPH egrad v y) (dvar_dPH egrad x y)"
    unfolding assigned_implicit [OF assms(1,2,3)] Let_def
    using assms(4) by (cases v) simp_all
  then show ?thesis
    by (simp only: out_dcore)
qed

theorem implicit_route_quotient_witness:
  "role 1 = Some TA \<and> role 2 = Some TC \<and> implicit_route TA TC \<and> FC \<notin> {TA, TC} \<and>
   dFC_dX__Y (dcore_dparX__parY 1 2 sample_grads (Fin 1) (Fin 1)) = Fin 3 \<and>
   role 4 = Some FC \<and> role 1 = Some TA \<and> implicit_route FC TA \<and> TC \<notin> {FC, TA} \<and>
   dTC_dX__Y (dcore_dparX__parY 4 1 sample_grads (Fin 1) (Fin 5)) = Fin 10"
  using implicit_route_quotient [of 1 TA 2 TC FC sample_grads "Fin 1" "Fin 1"]
    implicit_route_quotient [of 4 FC 1 TA TC sample_grads "Fin 1" "Fin 5"]
  by (simp add: role_def implicit_route_def rescale_def sample_grads_def)

text \<open>
  As the specification has it, with the quotient itself returned for every parX, it fails
  for parX of type 4: with all gradients equal to 1 and \<open>FugFac = 2\<close> the quotient
  \<open>dTC_dFC__TA\<close> is 1, and the function returns 2 for TC.
\<close>

theorem implicit_route_quotient_counterexample:
  "dTC_dFC__TA unit_grads = Fin 1 \<and>
   dTC_dX__Y (dcore_dparX__parY 4 1 unit_grads (Fin 1) (Fin 2)) = Fin 2"
  by (simp add: dcore_dparX__parY_def assign_skip assign_FC_def final_defs np_where_def Let_def
      preallocate_def dTC_dFC__TA_def dTC_dPH__TA_def dFC_dPH__TA_def unit_grads_def)







end
